theory Spec2Isabelle
  imports Complex_Main "HOL-Library.Multiset"
begin

section \<open>Platform model\<close>

text \<open>
  The screens are React components: their state variables and refs are fields of a
  record, every handler takes the record and returns it updated. What a handler does
  to the outside (HTTP requests, alerts, timers, navigation) is appended to a trace, in
  the order in which the source performs it. What the outside answers (permissions, the
  auth token, HTTP results, the position fix) is an argument of the handler. An awaited
  call that may reject is an \<open>outcome\<close>; a \<open>try/catch\<close> is a case split on it.
  An \<open>async\<close> handler is run to its end in one step; a promise callback
  (\<open>.then\<close>) that a listener leaves behind is a step of its own.
  An alert is recorded by its title and by what each of its buttons runs, in order;
  message texts, console logging and styling are not modelled. AsyncStorage calls are
  taken to succeed, except in \<open>saveReportLocally\<close>, whose \<open>catch\<close> block is
  there for them.
\<close>

text \<open>The error object a \<open>catch\<close> block inspects: \<open>error.response\<close> (status and
  \<open>data.detail\<close>), \<open>error.code\<close>, \<open>error.request\<close>, \<open>error.message\<close>.\<close>

record JsError =
  err_response :: "(nat \<times> string option) option"
  err_code :: "string option"
  err_request :: bool
  err_message :: "string option"

datatype 'a outcome = Throws JsError | Returns 'a

text \<open>\<open>throw new Error(msg)\<close>\<close>

definition newError :: "string \<Rightarrow> JsError" where
  "newError msg = \<lparr>err_response = None, err_code = None, err_request = False,
                    err_message = Some msg\<rparr>"

text \<open>A position fix as \<open>Location.getCurrentPositionAsync\<close> returns it (\<open>coords\<close>).\<close>

record Position =
  pos_latitude :: real
  pos_longitude :: real
  pos_accuracy :: "real option"

text \<open>Values kept in AsyncStorage: plain strings, and the JSON texts the screens write
  with \<open>JSON.stringify\<close> and read back with \<open>JSON.parse\<close>, kept in parsed form.
  A pending report has the fields \<open>accuracy\<close> and \<open>upload_status\<close> only when
  the screen that saved it writes them.\<close>

record ActivePanic =
  ap_id :: "string option"
  ap_category :: string
  ap_activated_at :: string

record PendingReport =
  pr_id :: string
  pr_uri :: "string option"
  pr_caption :: string
  pr_is_anonymous :: bool
  pr_latitude :: real
  pr_longitude :: real
  pr_accuracy :: "real option"
  pr_duration_seconds :: nat
  pr_created_at :: string
  pr_upload_status :: "string option"

datatype sval =
    Text string
  | PanicJson ActivePanic
  | ReportsJson "PendingReport list"
  | CustomizationJson string string

text \<open>The bodies of the requests the handlers send, by endpoint. (The location pings
  of the timer callbacks are not part of any handler's run.)\<close>

datatype body =
    EmptyBody
  | ActivatedFlag bool
  | ActivateBody real real "real option" string string
  | CustomizeBody string string
  | EscortActionBody string
  | VideoBody string string bool real real nat "(real option \<times> string) option"
  | AudioBody string bool string real real nat

text \<open>What pressing a button of an alert runs: nothing (a button without
  \<open>onPress\<close>), a navigation, or one of the handlers below with the arguments the
  closure captured.\<close>

datatype action =
    NoAction
  | RouterBackAction
  | RouterReplaceAction string
  | ExitAppAction
  | MinimizeAction
  | HideCaptionModal
  | SaveLocally "Position option" nat
  | DeactivateAction
  | MarkSafeAction

datatype effect =
    Post string body
  | Put string body
  | Alert string "action list"
  | SetInterval nat nat
  | ClearInterval nat
  | StartLocationUpdates string nat
  | StopLocationUpdates string
  | RouterBack
  | RouterReplace string
  | Vibrate
  | ExitApp
  | ClearAuthData

record World =
  storage :: "string \<rightharpoonup> sval"
  timers :: "(nat \<times> nat) list"
  nextTimer :: nat
  trace :: "effect list"

definition emit :: "effect \<Rightarrow> World \<Rightarrow> World" where
  "emit e w = w\<lparr>trace := trace w @ [e]\<rparr>"

definition getItem :: "World \<Rightarrow> string \<Rightarrow> sval option" where
  "getItem w k = storage w k"

definition setItem :: "string \<Rightarrow> sval \<Rightarrow> World \<Rightarrow> World" where
  "setItem k v w = w\<lparr>storage := (storage w)(k \<mapsto> v)\<rparr>"

definition removeItem :: "string \<Rightarrow> World \<Rightarrow> World" where
  "removeItem k w = w\<lparr>storage := (storage w)(k := None)\<rparr>"

text \<open>\<open>setInterval(f, ms)\<close> registers a timer under a fresh id and returns the id;
  \<open>clearInterval(id)\<close> removes it.\<close>

definition setInterval :: "nat \<Rightarrow> World \<Rightarrow> nat \<times> World" where
  "setInterval ms w =
     (nextTimer w,
      emit (SetInterval (nextTimer w) ms)
        (w\<lparr>timers := timers w @ [(nextTimer w, ms)], nextTimer := Suc (nextTimer w)\<rparr>))"

definition clearInterval :: "nat \<Rightarrow> World \<Rightarrow> World" where
  "clearInterval t w =
     emit (ClearInterval t) (w\<lparr>timers := filter (\<lambda>p. fst p \<noteq> t) (timers w)\<rparr>)"

text \<open>\<open>if (ref.current) clearInterval(ref.current)\<close>\<close>

definition clearRef :: "nat option \<Rightarrow> World \<Rightarrow> World" where
  "clearRef r w = (case r of None \<Rightarrow> w | Some t \<Rightarrow> clearInterval t w)"

text \<open>JavaScript truthiness of a \<open>string | null\<close>: \<open>null\<close> and \<open>''\<close> are falsy.\<close>

definition truthy :: "string option \<Rightarrow> bool" where
  "truthy t = (case t of None \<Rightarrow> False | Some s \<Rightarrow> s \<noteq> [])"

text \<open>\<open>error?.response?.status === 401\<close>\<close>

definition is401 :: "JsError \<Rightarrow> bool" where
  "is401 e = (case err_response e of Some (st, _) \<Rightarrow> st = 401 | None \<Rightarrow> False)"

section \<open>The PIN-locked panic screen\<close>

text \<open>
  The component \<open>PanicActive\<close> with the screens \<open>activating\<close>, \<open>active\<close>,
  \<open>pin_entry\<close> and \<open>disguise\<close>. The elapsed-seconds display counter is not
  modelled (its timer is); every other state variable and ref is a field.
\<close>

datatype Screen = activating | active | pin_entry | disguise

datatype AppStateStatus = app_active | app_inactive | app_background

text \<open>A read of \<open>panic_active\<close> that a listener has issued and whose \<open>.then\<close>
  callback has not run yet: the value read, and what the callback does when it is
  \<open>'true'\<close> (show the PIN screen, or minimize the app).\<close>

datatype Continuation = ShowPin "sval option" | Minimize "sval option"

record LockState =
  screen :: Screen
  isTracking :: bool
  pinDigits :: "string list"
  pinError :: string
  wrongAttempts :: nat
  intervalRef :: "nat option"
  elapsedRef :: "nat option"
  appStateRef :: AppStateStatus
  pending :: "Continuation list"

definition initialLockState :: LockState where
  "initialLockState =
     \<lparr>screen = activating, isTracking = False, pinDigits = [[], [], [], []],
      pinError = [], wrongAttempts = 0, intervalRef = None, elapsedRef = None,
      appStateRef = app_active, pending = []\<rparr>"

text \<open>What the outside answers during one handler of this screen.\<close>

record LockEnv =
  fgStatus :: "string outcome"
  bgRequest :: "unit outcome"
  authToken :: "string option outcome"
  activateResult :: "string option outcome"
  deactivateResult :: "unit outcome"
  customizeResult :: "unit outcome"
  nowText :: string
  platformOS :: string

definition LOCATION_TASK_NAME :: string where
  "LOCATION_TASK_NAME = ''background-location-task''"

definition startElapsedTimer :: "LockState \<times> World \<Rightarrow> LockState \<times> World" where
  "startElapsedTimer sw =
     (case sw of (s, w) \<Rightarrow>
        (case setInterval 1000 (clearRef (elapsedRef s) w) of
           (t, w') \<Rightarrow> (s\<lparr>elapsedRef := Some t\<rparr>, w')))"

text \<open>The token is captured by the timer callback; the rejection of
  \<open>startLocationUpdatesAsync\<close> is swallowed.\<close>

definition startLocationTracking_lock ::
  "string \<Rightarrow> LockState \<times> World \<Rightarrow> LockState \<times> World" where
  "startLocationTracking_lock token sw =
     (case sw of (s, w) \<Rightarrow>
        (case setInterval 30000 (clearRef (intervalRef s) w) of
           (t, w') \<Rightarrow>
             (s\<lparr>intervalRef := Some t\<rparr>,
              emit (StartLocationUpdates LOCATION_TASK_NAME 30000) w')))"

definition activatePanicMode_lock ::
  "LockEnv \<Rightarrow> LockState \<times> World \<Rightarrow> LockState \<times> World" where
  "activatePanicMode_lock env sw =
     (case sw of (s0, w) \<Rightarrow>
      let s = s0\<lparr>screen := activating\<rparr>;
          failed = (\<lambda>e. if is401 e
                         then (s, emit (RouterReplace ''/auth/login'') (emit ClearAuthData w))
                         else (s, emit RouterBack (emit (Alert ''Error'' []) w)))
      in (case fgStatus env of
           Throws e \<Rightarrow> failed e
         | Returns st \<Rightarrow>
             if st \<noteq> ''granted''
             then (s, emit RouterBack (emit (Alert ''Permission Denied'' []) w))
             else (case bgRequest env of
                Throws e \<Rightarrow> failed e
              | Returns _ \<Rightarrow>
                 (case authToken env of
                    Throws e \<Rightarrow> failed e
                  | Returns tok \<Rightarrow>
                     if \<not> truthy tok then (s, emit (RouterReplace ''/auth/login'') w)
                     else
                       let w1 = emit (Post ''/api/panic/activate'' (ActivatedFlag True)) w
                       in (case activateResult env of
                             Throws e \<Rightarrow>
                               (if is401 e
                                then (s, emit (RouterReplace ''/auth/login'')
                                           (emit ClearAuthData w1))
                                else (s, emit RouterBack (emit (Alert ''Error'' []) w1)))
                           | Returns pid \<Rightarrow>
                               let w2 = setItem ''panic_id''
                                          (Text (if truthy pid then the pid else []))
                                          (setItem ''panic_started_at'' (Text (nowText env))
                                             (setItem ''panic_active'' (Text ''true'') w1));
                                   s2 = s\<lparr>isTracking := True, screen := active\<rparr>;
                                   sw3 = startLocationTracking_lock (the tok)
                                           (startElapsedTimer (s2, w2))
                               in (fst sw3, emit Vibrate (snd sw3)))))))"

definition checkPanicState :: "LockEnv \<Rightarrow> LockState \<times> World \<Rightarrow> LockState \<times> World" where
  "checkPanicState env sw =
     (case sw of (s, w) \<Rightarrow>
        if getItem w ''panic_active'' = Some (Text ''true'')
        then startElapsedTimer (s\<lparr>isTracking := True, screen := pin_entry\<rparr>, w)
        else activatePanicMode_lock env (s, w))"

text \<open>The \<open>AppState\<close> listener registered on mount. Coming to the foreground it
  issues the read of \<open>panic_active\<close> and returns; the screen changes only when
  the callback of the read runs.\<close>

definition onAppStateChange ::
  "AppStateStatus \<Rightarrow> LockState \<times> World \<Rightarrow> LockState \<times> World" where
  "onAppStateChange nextState sw =
     (case sw of (s, w) \<Rightarrow>
        let s1 = (if (appStateRef s = app_inactive \<or> appStateRef s = app_background)
                     \<and> nextState = app_active
                  then s\<lparr>pending := pending s @ [ShowPin (getItem w ''panic_active'')]\<rparr>
                  else s)
        in (s1\<lparr>appStateRef := nextState\<rparr>, w))"

definition deactivatePanicMode ::
  "LockEnv \<Rightarrow> LockState \<times> World \<Rightarrow> LockState \<times> World" where
  "deactivatePanicMode env sw =
     (case sw of (s, w) \<Rightarrow>
        let w1 = emit (StopLocationUpdates LOCATION_TASK_NAME)
                   (clearRef (elapsedRef s) (clearRef (intervalRef s) w));
            failed = (\<lambda>w'. (s, emit (Alert ''Error'' []) w'));
            finish = (\<lambda>w'.
               (s\<lparr>isTracking := False\<rparr>,
                emit (Alert ''Safe'' [RouterReplaceAction ''/civil/home''])
                  (removeItem ''panic_id''
                     (removeItem ''panic_started_at''
                        (removeItem ''panic_active'' w')))))
        in (case authToken env of
             Throws e \<Rightarrow> failed w1
           | Returns tok \<Rightarrow>
               if truthy tok
               then (let w2 = emit (Post ''/api/panic/deactivate'' EmptyBody) w1
                     in (case deactivateResult env of
                          Throws e \<Rightarrow> failed w2
                        | Returns _ \<Rightarrow> finish w2))
               else finish w1))"

definition triggerDisguise :: "LockEnv \<Rightarrow> LockState \<times> World \<Rightarrow> LockState \<times> World" where
  "triggerDisguise env sw =
     (case sw of (s, w) \<Rightarrow>
        let w' = (case authToken env of
                    Throws e \<Rightarrow> w
                  | Returns tok \<Rightarrow>
                      if truthy tok
                      then (let w1 = emit (Put ''/api/user/customize-app''
                                             (CustomizeBody ''GameZone Pro'' ''game-controller'')) w
                            in (case customizeResult env of
                                 Throws e \<Rightarrow> w1
                               | Returns _ \<Rightarrow>
                                   setItem ''app_customization''
                                     (CustomizationJson ''GameZone Pro'' ''game-controller'') w1))
                      else w)
        in (s\<lparr>screen := disguise\<rparr>, w'))"

definition handleWrongPin :: "LockEnv \<Rightarrow> LockState \<times> World \<Rightarrow> LockState \<times> World" where
  "handleWrongPin env sw =
     (case sw of (s, w) \<Rightarrow>
        let attempts = wrongAttempts s + 1;
            s1 = s\<lparr>wrongAttempts := attempts, pinDigits := [[], [], [], []]\<rparr>;
            w1 = emit Vibrate w
        in if attempts \<ge> 2
           then triggerDisguise env (s1\<lparr>pinError := []\<rparr>, w1)
           else (s1\<lparr>pinError := ''Incorrect PIN. Try again.''\<rparr>, w1))"

text \<open>\<open>newDigits.findIndex(d => d === '')\<close>; \<open>None\<close> is the source's \<open>-1\<close>.\<close>

fun findIndexEmpty :: "string list \<Rightarrow> nat option" where
  "findIndexEmpty [] = None"
| "findIndexEmpty (d # ds) =
     (if d = [] then Some 0 else map_option Suc (findIndexEmpty ds))"

text \<open>The stored PIN: \<open>AsyncStorage.getItem('security_pin')\<close>, a string or \<open>null\<close>.\<close>

definition storedPinOf :: "World \<Rightarrow> string option" where
  "storedPinOf w = (case getItem w ''security_pin'' of Some (Text p) \<Rightarrow> Some p | _ \<Rightarrow> None)"

definition handlePinInput ::
  "string \<Rightarrow> LockEnv \<Rightarrow> LockState \<times> World \<Rightarrow> LockState \<times> World" where
  "handlePinInput digit env sw =
     (case sw of (s, w) \<Rightarrow>
       (case findIndexEmpty (pinDigits s) of
          None \<Rightarrow> (s, w)
        | Some emptyIdx \<Rightarrow>
            let newDigits = (pinDigits s)[emptyIdx := digit];
                s1 = s\<lparr>pinDigits := newDigits\<rparr>;
                enteredPin = concat newDigits
            in if length enteredPin = 4
               then (let storedPin = storedPinOf w
                     in if \<not> truthy storedPin
                        then (if enteredPin = ''1234''
                              then (s1\<lparr>pinDigits := [[], [], [], []], pinError := [],
                                       screen := active\<rparr>, w)
                              else handleWrongPin env (s1, w))
                        else if enteredPin = the storedPin
                        then (s1\<lparr>pinDigits := [[], [], [], []], pinError := [],
                                 screen := active\<rparr>, w)
                        else handleWrongPin env (s1, w))
               else (s1, w)))"

text \<open>\<open>handlePinBackspace\<close>: clears the last filled slot.\<close>

fun clearLastFilled :: "string list \<Rightarrow> string list" where
  "clearLastFilled [] = []"
| "clearLastFilled (d # ds) =
     (if list_all (\<lambda>x. x = []) ds then [] # ds else d # clearLastFilled ds)"

definition handlePinBackspace :: "LockState \<times> World \<Rightarrow> LockState \<times> World" where
  "handlePinBackspace sw =
     (case sw of (s, w) \<Rightarrow> (s\<lparr>pinDigits := clearLastFilled (pinDigits s), pinError := []\<rparr>, w))"

text \<open>The keypad of the PIN screen, written by the rows in which its twelve keys
  wrap; its last key is the backspace glyph (three bytes in UTF-8), its tenth is the
  empty, disabled filler.\<close>

definition backspaceKey :: string where
  "backspaceKey = [CHR 0xE2, CHR 0x8C, CHR 0xAB]"

definition keypad :: "string list" where
  "keypad = [''1'', ''2'', ''3''] @ [''4'', ''5'', ''6''] @ [''7'', ''8'', ''9'']
              @ [[], ''0'', backspaceKey]"

definition pressKey :: "string \<Rightarrow> LockEnv \<Rightarrow> LockState \<times> World \<Rightarrow> LockState \<times> World" where
  "pressKey key env sw =
     (if key = backspaceKey then handlePinBackspace sw
      else if key \<noteq> [] then handlePinInput key env sw
      else sw)"

definition minimizeApp :: "LockEnv \<Rightarrow> World \<Rightarrow> World" where
  "minimizeApp env w = (if platformOS env = ''android'' then emit ExitApp w else w)"

text \<open>The back-button listener issues the same read and returns \<open>true\<close>.\<close>

definition onHardwareBack :: "LockEnv \<Rightarrow> LockState \<times> World \<Rightarrow> LockState \<times> World" where
  "onHardwareBack env sw =
     (case sw of (s, w) \<Rightarrow>
        (s\<lparr>pending := pending s @ [Minimize (getItem w ''panic_active'')]\<rparr>, w))"

text \<open>The callbacks of the two reads, and the step in which the oldest pending one
  runs.\<close>

fun runContinuation ::
  "LockEnv \<Rightarrow> Continuation \<Rightarrow> LockState \<times> World \<Rightarrow> LockState \<times> World" where
  "runContinuation env (ShowPin val) sw =
     (case sw of (s, w) \<Rightarrow>
        if val = Some (Text ''true'') then (s\<lparr>screen := pin_entry\<rparr>, w) else (s, w))"
| "runContinuation env (Minimize val) sw =
     (case sw of (s, w) \<Rightarrow>
        if val = Some (Text ''true'') then (s, minimizeApp env w) else (s, w))"

definition resolvePending :: "LockEnv \<Rightarrow> LockState \<times> World \<Rightarrow> LockState \<times> World" where
  "resolvePending env sw =
     (case sw of (s, w) \<Rightarrow>
        (case pending s of
           [] \<Rightarrow> (s, w)
         | k # ks \<Rightarrow> runContinuation env k (s\<lparr>pending := ks\<rparr>, w)))"

definition handlePanicButton :: "LockState \<times> World \<Rightarrow> LockState \<times> World" where
  "handlePanicButton sw =
     (case sw of (s, w) \<Rightarrow> (s, emit (Alert ''App will minimize'' [MinimizeAction]) w))"

definition pressDeactivate :: "LockState \<times> World \<Rightarrow> LockState \<times> World" where
  "pressDeactivate sw =
     (case sw of (s, w) \<Rightarrow>
        (s, emit (Alert ''Deactivate Panic Mode?'' [NoAction, DeactivateAction]) w))"

text \<open>
  What can happen to the mounted screen. The keypad is rendered on \<open>pin_entry\<close>
  only, the hide and deactivate buttons on \<open>active\<close> only, the \<open>activating\<close> and
  \<open>disguise\<close> screens have no control; the two listeners are always registered.
\<close>

datatype LockEvent =
    PressKey string
  | PressHide
  | PressDeactivate
  | ChooseStop
  | AppStateChanged AppStateStatus
  | HardwareBack

fun enabled :: "Screen \<Rightarrow> LockEvent \<Rightarrow> bool" where
  "enabled scr (PressKey key) = (scr = pin_entry \<and> key \<in> set keypad \<and> key \<noteq> [])"
| "enabled scr PressHide = (scr = active)"
| "enabled scr PressDeactivate = (scr = active)"
| "enabled scr ChooseStop = (scr = active)"
| "enabled scr (AppStateChanged nextState) = True"
| "enabled scr HardwareBack = True"

fun handle :: "LockEnv \<Rightarrow> LockEvent \<Rightarrow> LockState \<times> World \<Rightarrow> LockState \<times> World" where
  "handle env (PressKey key) sw = pressKey key env sw"
| "handle env PressHide sw = handlePanicButton sw"
| "handle env PressDeactivate sw = pressDeactivate sw"
| "handle env ChooseStop sw = deactivatePanicMode env sw"
| "handle env (AppStateChanged nextState) sw = onAppStateChange nextState sw"
| "handle env HardwareBack sw = onHardwareBack env sw"

definition step :: "LockEnv \<Rightarrow> LockEvent \<Rightarrow> LockState \<times> World \<Rightarrow> LockState \<times> World" where
  "step env ev sw = (if enabled (screen (fst sw)) ev then handle env ev sw else sw)"

text \<open>The four slots joined once \<open>digit\<close> has gone into the first empty one
  (\<open>enteredPin\<close>), and the PIN the entry is compared with.\<close>

definition enteredPinAfter :: "string list \<Rightarrow> string \<Rightarrow> string option" where
  "enteredPinAfter ds digit =
     (case findIndexEmpty ds of None \<Rightarrow> None | Some i \<Rightarrow> Some (concat (ds[i := digit])))"

definition expectedPin :: "World \<Rightarrow> string" where
  "expectedPin w = (if truthy (storedPinOf w) then the (storedPinOf w) else ''1234'')"

section \<open>The category-routed panic screen\<close>

text \<open>The component \<open>PanicActive\<close> of \<open>civil/panic-active.tsx\<close>.\<close>

record CivilState =
  c_isTracking :: bool
  panicId :: "string option"
  showCategoryModal :: bool
  selectedCategory :: "string option"
  showSafeButton :: bool
  showEmergencyContacts :: "string option"
  c_intervalRef :: "nat option"

definition initialCivilState :: CivilState where
  "initialCivilState =
     \<lparr>c_isTracking = False, panicId = None, showCategoryModal = True,
      selectedCategory = None, showSafeButton = False, showEmergencyContacts = None,
      c_intervalRef = None\<rparr>"

text \<open>What \<open>JSON.parse\<close> makes of a stored text, as far as \<open>checkActivePanic\<close>
  reads it: \<open>null\<close>, on which reading a property throws, or any other value with
  its properties \<open>id\<close> and \<open>category\<close>, each a string or undefined.\<close>

datatype ParsedPanic = ParsedNull | Parsed "string option" "string option"

text \<open>What the outside answers during one handler of this screen;
  \<open>c_jsonParse\<close> is \<open>JSON.parse\<close> on plain stored strings.\<close>

record CivilEnv =
  c_jsonParse :: "string \<Rightarrow> ParsedPanic outcome"
  c_fgStatus :: "string outcome"
  c_bgRequest :: "unit outcome"
  c_position :: "Position outcome"
  c_authToken :: "string option outcome"
  c_activateResult :: "string option outcome"
  c_deactivateResult :: "unit outcome"
  c_nowIso :: string

definition LOCATION_TASK :: string where
  "LOCATION_TASK = ''background-location-panic''"

definition SECURITY_EMERGENCIES :: "string list" where
  "SECURITY_EMERGENCIES =
     [''violence'', ''robbery'', ''kidnapping'', ''breakin'', ''harassment'', ''other'']"

definition startLocationTracking_civil ::
  "string \<Rightarrow> CivilState \<times> World \<Rightarrow> CivilState \<times> World" where
  "startLocationTracking_civil token sw =
     (case sw of (s, w) \<Rightarrow>
        (case setInterval 30000 (clearRef (c_intervalRef s) w) of
           (t, w') \<Rightarrow>
             (s\<lparr>c_intervalRef := Some t\<rparr>,
              emit (StartLocationUpdates LOCATION_TASK 30000) w')))"

definition activatePanicMode_civil ::
  "string \<Rightarrow> CivilEnv \<Rightarrow> CivilState \<times> World \<Rightarrow> CivilState \<times> World" where
  "activatePanicMode_civil category env sw =
     (case sw of (s, w) \<Rightarrow>
      let failed = (\<lambda>e w'.
            if is401 e
            then (s, emit (RouterReplace ''/auth/login'')
                       (emit ClearAuthData (emit (Alert ''Session Expired'' []) w')))
            else (s, emit RouterBack (emit (Alert ''Error'' []) w')))
      in (case c_fgStatus env of
            Throws e \<Rightarrow> failed e w
          | Returns st \<Rightarrow>
              if st \<noteq> ''granted''
              then (s, emit RouterBack (emit (Alert ''Permission Denied'' []) w))
              else (case c_bgRequest env of
                 Throws e \<Rightarrow> failed e w
               | Returns _ \<Rightarrow>
                  (case c_position env of
                     Throws e \<Rightarrow> failed e w
                   | Returns location \<Rightarrow>
                      (case c_authToken env of
                         Throws e \<Rightarrow> failed e w
                       | Returns tok \<Rightarrow>
                          if \<not> truthy tok
                          then (s, emit (RouterReplace ''/auth/login'')
                                     (emit (Alert ''Session Expired'' []) w))
                          else
                            let w1 = emit (Post ''/api/panic/activate''
                                       (ActivateBody (pos_latitude location)
                                          (pos_longitude location) (pos_accuracy location)
                                          (c_nowIso env) category)) w
                            in (case c_activateResult env of
                                  Throws e \<Rightarrow> failed e w1
                                | Returns newPanicId \<Rightarrow>
                                    let s2 = s\<lparr>panicId := newPanicId, c_isTracking := True\<rparr>;
                                        w2 = setItem ''auth_token'' (Text (the tok))
                                               (setItem ''active_panic''
                                                  (PanicJson \<lparr>ap_id = newPanicId,
                                                     ap_category = category,
                                                     ap_activated_at = c_nowIso env\<rparr>) w1);
                                        sw3 = startLocationTracking_civil (the tok) (s2, w2)
                                    in (fst sw3,
                                        emit (Alert ''Panic Mode Activated'' [ExitAppAction])
                                          (snd sw3))))))))"

text \<open>\<open>JSON.parse\<close> of a stored value: the parsed forms are objects or lists, of
  which only the panic record has an \<open>id\<close> and a \<open>category\<close>.\<close>

fun parseStored :: "(string \<Rightarrow> ParsedPanic outcome) \<Rightarrow> sval \<Rightarrow> ParsedPanic outcome" where
  "parseStored parse (Text t) = parse t"
| "parseStored parse (PanicJson panicData) =
     Returns (Parsed (ap_id panicData) (Some (ap_category panicData)))"
| "parseStored parse (ReportsJson rs) = Returns (Parsed None None)"
| "parseStored parse (CustomizationJson name logo) = Returns (Parsed None None)"

text \<open>On mount. An absent key and the empty string are falsy; a text that does not
  parse, or parses to \<open>null\<close>, throws before any state is set and is caught.\<close>

definition checkActivePanic ::
  "CivilEnv \<Rightarrow> CivilState \<times> World \<Rightarrow> CivilState \<times> World" where
  "checkActivePanic env sw =
     (case sw of (s, w) \<Rightarrow>
        (case getItem w ''active_panic'' of
           None \<Rightarrow> (s, w)
         | Some activePanic \<Rightarrow>
             if activePanic = Text [] then (s, w)
             else (case parseStored (c_jsonParse env) activePanic of
                     Throws e \<Rightarrow> (s, w)
                   | Returns ParsedNull \<Rightarrow> (s, w)
                   | Returns (Parsed panicDataId panicDataCategory) \<Rightarrow>
                       let s1 = s\<lparr>panicId := panicDataId,
                                  selectedCategory := panicDataCategory,
                                  c_isTracking := True, showSafeButton := True,
                                  showCategoryModal := False\<rparr>
                       in (case c_authToken env of
                             Throws e \<Rightarrow> (s1, w)
                           | Returns tok \<Rightarrow>
                               if truthy tok
                               then startLocationTracking_civil (the tok) (s1, w)
                               else (s1, w)))))"

text \<open>The \<open>AppState\<close> listener. It is registered once, on mount, so the
  \<open>isTracking\<close> it reads is that of the render it was created in
  (\<open>captured\<close>).\<close>

definition handleAppStateChange :: "string \<Rightarrow> CivilState \<Rightarrow> CivilState \<Rightarrow> CivilState" where
  "handleAppStateChange nextAppState captured s =
     (if nextAppState = ''active'' \<and> c_isTracking captured
      then s\<lparr>showSafeButton := True\<rparr> else s)"

text \<open>What the component renders: the emergency contacts, the screen with the
  \<open>I'm Safe Now\<close> button, or the category screen with its modal visible or not.\<close>

datatype CivilView = ContactsView string | SafeButtonView | CategoryView bool

definition civilView :: "CivilState \<Rightarrow> CivilView" where
  "civilView s =
     (case showEmergencyContacts s of
        Some contacts \<Rightarrow> ContactsView contacts
      | None \<Rightarrow>
          if showSafeButton s \<and> c_isTracking s then SafeButtonView
          else CategoryView (showCategoryModal s))"

definition handleCategorySelect ::
  "string \<Rightarrow> CivilEnv \<Rightarrow> CivilState \<times> World \<Rightarrow> CivilState \<times> World" where
  "handleCategorySelect category env sw =
     (case sw of (s, w) \<Rightarrow>
        let s1 = s\<lparr>selectedCategory := Some category, showCategoryModal := False\<rparr>
        in if category = ''medical'' then (s1\<lparr>showEmergencyContacts := Some ''ambulance''\<rparr>, w)
           else if category = ''fire'' then (s1\<lparr>showEmergencyContacts := Some ''fire''\<rparr>, w)
           else if category \<in> set SECURITY_EMERGENCIES
           then activatePanicMode_civil category env (s1, w)
           else (s1, w))"

text \<open>The cleanup that runs when the screen is left.\<close>

definition cleanup_civil :: "CivilState \<times> World \<Rightarrow> CivilState \<times> World" where
  "cleanup_civil sw = (case sw of (s, w) \<Rightarrow> (s, clearRef (c_intervalRef s) w))"

text \<open>A category can be selected only in the visible modal.\<close>

definition selectCategory ::
  "string \<Rightarrow> CivilEnv \<Rightarrow> CivilState \<times> World \<Rightarrow> CivilState \<times> World" where
  "selectCategory category env sw =
     (if civilView (fst sw) = CategoryView True then handleCategorySelect category env sw
      else sw)"

text \<open>\<open>markSafe\<close> shows a prompt; its second button runs the deactivation.\<close>

definition markSafe :: "CivilState \<times> World \<Rightarrow> CivilState \<times> World" where
  "markSafe sw =
     (case sw of (s, w) \<Rightarrow> (s, emit (Alert ''I'm Safe Now'' [NoAction, MarkSafeAction]) w))"

definition markSafe_onPress ::
  "CivilEnv \<Rightarrow> CivilState \<times> World \<Rightarrow> CivilState \<times> World" where
  "markSafe_onPress env sw =
     (case sw of (s, w) \<Rightarrow>
        let failed = (\<lambda>w'. (s, emit (Alert ''Error'' []) w'));
            finish = (\<lambda>w'.
               (s\<lparr>c_isTracking := False, showSafeButton := False\<rparr>,
                emit (Alert ''You are Safe'' [RouterReplaceAction ''/civil/home''])
                  (removeItem ''active_panic'' w')))
        in (case c_authToken env of
              Throws e \<Rightarrow> failed w
            | Returns tok \<Rightarrow>
                let w1 = emit (StopLocationUpdates LOCATION_TASK)
                           (clearRef (c_intervalRef s) w)
                in if truthy tok
                   then (let w2 = emit (Post ''/api/panic/deactivate'' EmptyBody) w1
                         in (case c_deactivateResult env of
                               Throws e \<Rightarrow> failed w2
                             | Returns _ \<Rightarrow> finish w2))
                   else finish w1))"

section \<open>The escort screen\<close>

record EscortState =
  e_isTracking :: bool
  e_loading :: bool
  sessionId :: "string option"
  e_intervalRef :: "nat option"

definition initialEscortState :: EscortState where
  "initialEscortState =
     \<lparr>e_isTracking = False, e_loading = False, sessionId = None, e_intervalRef = None\<rparr>"

record EscortEnv =
  e_fgStatus :: "string outcome"
  e_bgStatus :: "string outcome"
  e_authToken :: "string option outcome"
  e_startResult :: "string option outcome"
  e_stopResult :: "unit outcome"

definition startLocationTracking_escort ::
  "string \<Rightarrow> EscortState \<times> World \<Rightarrow> EscortState \<times> World" where
  "startLocationTracking_escort token sw =
     (case sw of (s, w) \<Rightarrow>
        (case setInterval 30000 w of (t, w') \<Rightarrow> (s\<lparr>e_intervalRef := Some t\<rparr>, w')))"

text \<open>The cleanup that runs when the screen is left.\<close>

definition cleanup_escort :: "EscortState \<times> World \<Rightarrow> EscortState \<times> World" where
  "cleanup_escort sw = (case sw of (s, w) \<Rightarrow> (s, clearRef (e_intervalRef s) w))"

definition startEscort :: "EscortEnv \<Rightarrow> EscortState \<times> World \<Rightarrow> EscortState \<times> World" where
  "startEscort env sw =
     (case sw of (s, w) \<Rightarrow>
        let done = (\<lambda>s' w'. (s'\<lparr>e_loading := False\<rparr>, w'));
            failed = (\<lambda>e w'.
               if is401 e
               then done s (emit (RouterReplace ''/auth/login'') (emit ClearAuthData w'))
               else done s (emit (Alert ''Error'' []) w'))
        in (case e_fgStatus env of
              Throws e \<Rightarrow> failed e w
            | Returns foregroundStatus \<Rightarrow>
                if foregroundStatus \<noteq> ''granted''
                then done s (emit (Alert ''Permission Denied'' []) w)
                else (case e_bgStatus env of
                   Throws e \<Rightarrow> failed e w
                 | Returns backgroundStatus \<Rightarrow>
                     let w0 = (if backgroundStatus \<noteq> ''granted''
                               then emit (Alert ''Warning'' []) w else w)
                     in (case e_authToken env of
                           Throws e \<Rightarrow> failed e w0
                         | Returns tok \<Rightarrow>
                             if \<not> truthy tok
                             then done s (emit (RouterReplace ''/auth/login'') w0)
                             else
                               let w1 = emit (Post ''/api/escort/action''
                                                (EscortActionBody ''start'')) w0
                               in (case e_startResult env of
                                     Throws e \<Rightarrow> failed e w1
                                   | Returns session_id \<Rightarrow>
                                       let s2 = s\<lparr>sessionId := session_id,
                                                  e_isTracking := True\<rparr>;
                                           sw3 = startLocationTracking_escort (the tok) (s2, w1)
                                       in done (fst sw3)
                                            (emit (Alert ''Success'' []) (snd sw3)))))))"

text \<open>\<open>stopEscort\<close> shows a prompt; its second button runs the handler below.\<close>

definition stopEscort_onPress ::
  "EscortEnv \<Rightarrow> EscortState \<times> World \<Rightarrow> EscortState \<times> World" where
  "stopEscort_onPress env sw =
     (case sw of (s, w) \<Rightarrow>
        let done = (\<lambda>s' w'. (s'\<lparr>e_loading := False\<rparr>, w'));
            failed = (\<lambda>w'. done s (emit (Alert ''Error'' []) w'));
            finish = (\<lambda>w'.
               done (s\<lparr>e_isTracking := False, sessionId := None\<rparr>)
                 (emit (Alert ''Success'' [RouterBackAction]) w'));
            w1 = clearRef (e_intervalRef s) w
        in (case e_authToken env of
              Throws e \<Rightarrow> failed w1
            | Returns tok \<Rightarrow>
                if truthy tok
                then (let w2 = emit (Post ''/api/escort/action'' (EscortActionBody ''stop'')) w1
                      in (case e_stopResult env of
                            Throws e \<Rightarrow> failed w2
                          | Returns _ \<Rightarrow> finish w2))
                else finish w1))"

section \<open>The responder's track screen\<close>

record LocationEntry =
  le_latitude :: real
  le_longitude :: real
  le_timestamp :: string
  le_accuracy :: "real option"
  le_source :: "string option"

text \<open>
  The comparator of the sort in \<open>loadTrackData\<close>,
  \<open>(a, b) => getTime b - getTime a\<close>. The parameter \<open>getTime\<close> is
  \<open>new Date(timestamp).getTime()\<close>: the milliseconds of a timestamp, or \<open>None\<close>
  for the \<open>NaN\<close> of a text that is no date, which makes the difference \<open>NaN\<close>.
\<close>

definition compareEntries ::
  "(string \<Rightarrow> int option) \<Rightarrow> LocationEntry \<Rightarrow> LocationEntry \<Rightarrow> int option" where
  "compareEntries getTime a b =
     (case getTime (le_timestamp b) of
        None \<Rightarrow> None
      | Some tb \<Rightarrow> (case getTime (le_timestamp a) of
                      None \<Rightarrow> None
                    | Some ta \<Rightarrow> Some (tb - ta)))"

text \<open>
  \<open>Array.prototype.sort\<close> with a comparator is stable, moves \<open>a\<close> behind \<open>b\<close>
  when the comparator is positive, and takes \<open>NaN\<close> for 0. With a consistent
  comparator every stable sort gives the same list, written here as an insertion from
  the right; with one made inconsistent by \<open>NaN\<close> the language leaves the order to
  the engine, and the insertion is what engines do on short arrays.
\<close>

definition sortsAfter :: "('a \<Rightarrow> 'a \<Rightarrow> int option) \<Rightarrow> 'a \<Rightarrow> 'a \<Rightarrow> bool" where
  "sortsAfter compareFn a b = (case compareFn a b of None \<Rightarrow> False | Some d \<Rightarrow> d > 0)"

fun insertBy :: "('a \<Rightarrow> 'a \<Rightarrow> int option) \<Rightarrow> 'a \<Rightarrow> 'a list \<Rightarrow> 'a list" where
  "insertBy compareFn a [] = [a]"
| "insertBy compareFn a (b # bs) =
     (if sortsAfter compareFn a b then b # insertBy compareFn a bs else a # b # bs)"

definition arraySort :: "('a \<Rightarrow> 'a \<Rightarrow> int option) \<Rightarrow> 'a list \<Rightarrow> 'a list" where
  "arraySort compareFn xs = foldr (insertBy compareFn) xs []"

text \<open>The updater passed to \<open>setLocationHistory\<close>.\<close>

definition mergeHistory ::
  "(string \<Rightarrow> int option) \<Rightarrow> LocationEntry list \<Rightarrow> LocationEntry list \<Rightarrow> LocationEntry list" where
  "mergeHistory getTime prev incoming =
     (let existingTimestamps = set (map le_timestamp prev);
          newEntries = filter (\<lambda>l. le_timestamp l \<notin> existingTimestamps) incoming
      in if length newEntries = 0 then prev
         else arraySort (compareEntries getTime) (prev @ newEntries))"

record TrackState =
  hasTrackData :: bool
  locationHistory :: "LocationEntry list"
  refreshing :: bool
  loading :: bool

definition initialTrackState :: TrackState where
  "initialTrackState =
     \<lparr>hasTrackData = False, locationHistory = [], refreshing = False, loading = True\<rparr>"

text \<open>One run of \<open>loadTrackData(uid)\<close>: the token, then the answer of
  \<open>GET /api/security/track-user/uid\<close>, of which \<open>location_history\<close> (absent or a
  list) is kept.\<close>

definition loadTrackData ::
  "(string \<Rightarrow> int option) \<Rightarrow> string \<Rightarrow> string option outcome \<Rightarrow> LocationEntry list option outcome
     \<Rightarrow> TrackState \<times> World \<Rightarrow> TrackState \<times> World" where
  "loadTrackData getTime uid tokenResult response sw =
     (case sw of (s, w) \<Rightarrow>
        if uid = [] then (s, w)
        else
          let done = (\<lambda>s' w'. (s'\<lparr>refreshing := False, loading := False\<rparr>, w'));
              failed = (\<lambda>e. if is401 e
                             then done s (emit (RouterReplace ''/auth/login'') (emit ClearAuthData w))
                             else done s w)
          in (case tokenResult of
                Throws e \<Rightarrow> failed e
              | Returns tok \<Rightarrow>
                  if \<not> truthy tok then done s (emit (RouterReplace ''/auth/login'') w)
                  else (case response of
                          Throws e \<Rightarrow> failed e
                        | Returns location_history \<Rightarrow>
                            let s1 = s\<lparr>hasTrackData := True\<rparr>
                            in (case location_history of
                                  None \<Rightarrow> done s1 w
                                | Some entries \<Rightarrow>
                                    if length entries > 0
                                    then done (s1\<lparr>locationHistory :=
                                                 mergeHistory getTime (locationHistory s1) entries\<rparr>) w
                                    else done s1 w))))"

text \<open>The screen polls every 30 seconds: a sequence of answers, each handled in turn
  by \<open>loadTrackData\<close>, with a token at hand.\<close>

fun loadAll ::
  "(string \<Rightarrow> int option) \<Rightarrow> string \<Rightarrow> LocationEntry list option outcome list
     \<Rightarrow> TrackState \<times> World \<Rightarrow> TrackState \<times> World" where
  "loadAll getTime uid [] sw = sw"
| "loadAll getTime uid (r # rs) sw =
     loadAll getTime uid rs (loadTrackData getTime uid (Returns (Some ''token'')) r sw)"

text \<open>
  The specification's \<open>ingestLocation\<close>, written from its words and used for comparison
  only: a point is appended when its capture time is after the last stored one, and
  dropped otherwise.
\<close>

definition spec_ingestLocation ::
  "(string \<Rightarrow> int option) \<Rightarrow> LocationEntry list \<Rightarrow> LocationEntry \<Rightarrow> LocationEntry list" where
  "spec_ingestLocation getTime history point =
     (if history = [] then [point]
      else (case (getTime (le_timestamp (last history)), getTime (le_timestamp point)) of
              (Some lastTime, Some pointTime) \<Rightarrow>
                if lastTime < pointTime then history @ [point] else history
            | _ \<Rightarrow> history))"

text \<open>Three sample points, 0, 15 and 30 seconds into an emergency, with their
  capture times in milliseconds, and a point whose timestamp is no date.\<close>

definition sampleTime :: "string \<Rightarrow> int option" where
  "sampleTime ts =
     (if ts = ''2024-01-01T00:00:00.000Z'' then Some 1704067200000
      else if ts = ''2024-01-01T00:00:15.000Z'' then Some 1704067215000
      else if ts = ''2024-01-01T00:00:30.000Z'' then Some 1704067230000
      else None)"

definition point :: "string \<Rightarrow> LocationEntry" where
  "point ts = \<lparr>le_latitude = 9.0820, le_longitude = 8.6753, le_timestamp = ts,
               le_accuracy = None, le_source = None\<rparr>"

definition p0 :: LocationEntry where "p0 = point ''2024-01-01T00:00:00.000Z''"
definition p15 :: LocationEntry where "p15 = point ''2024-01-01T00:00:15.000Z''"
definition p30 :: LocationEntry where "p30 = point ''2024-01-01T00:00:30.000Z''"
definition pBad :: LocationEntry where "pBad = point ''not-a-date''"

section \<open>Report submission\<close>

subsection \<open>The audio report screen\<close>

record AudioState =
  audioUri :: "string option"
  a_caption :: string
  a_isAnonymous :: bool
  a_loading :: bool
  a_location :: "Position option"
  a_recordingDuration :: nat

record ReportEnv =
  r_position :: "Position outcome"
  r_authToken :: "string option outcome"
  r_fileInfo :: "(bool \<times> nat option) outcome"
  r_base64 :: "string outcome"
  r_uploadResult :: "unit outcome"
  r_nowIso :: string
  r_nowMs :: string
  r_storageWrite :: "unit outcome"

text \<open>The position used when the fix fails, in the audio screen and in the earlier
  video screen.\<close>

definition fallbackPosition :: Position where
  "fallbackPosition = \<lparr>pos_latitude = 9.0820, pos_longitude = 8.6753, pos_accuracy = None\<rparr>"

definition orDefault :: "string \<Rightarrow> string \<Rightarrow> string" where
  "orDefault s d = (if s = [] then d else s)"

definition submitReport_audio ::
  "ReportEnv \<Rightarrow> AudioState \<times> World \<Rightarrow> AudioState \<times> World" where
  "submitReport_audio env sw =
     (case sw of (s, w) \<Rightarrow>
        if \<not> truthy (audioUri s) then (s, emit (Alert ''Error'' []) w)
        else
          let done = (\<lambda>w'. (s\<lparr>a_loading := False\<rparr>, w'));
              failed = (\<lambda>e w'.
                 if is401 e
                 then done (emit (RouterReplace ''/auth/login'')
                              (emit ClearAuthData (emit (Alert ''Session Expired'' []) w')))
                 else done (emit (Alert ''Error'' []) w'));
              currentLocation =
                (case a_location s of
                   Some l \<Rightarrow> l
                 | None \<Rightarrow> (case r_position env of
                               Throws e \<Rightarrow> fallbackPosition
                             | Returns l \<Rightarrow> l))
          in (case r_authToken env of
                Throws e \<Rightarrow> failed e w
              | Returns tok \<Rightarrow>
                  if \<not> truthy tok then done (emit (RouterReplace ''/auth/login'') w)
                  else
                    let w1 = emit (Post ''/api/report/create''
                               (AudioBody (orDefault (a_caption s) ''Audio security report'')
                                  (a_isAnonymous s) (the (audioUri s))
                                  (pos_latitude currentLocation) (pos_longitude currentLocation)
                                  (a_recordingDuration s))) w
                    in (case r_uploadResult env of
                          Throws e \<Rightarrow> failed e w1
                        | Returns _ \<Rightarrow> done (emit (Alert ''Success!'' [RouterBackAction]) w1))))"

subsection \<open>The video report screens\<close>

text \<open>Two versions of \<open>VideoReport\<close> are in the repository; the later one carries the
  comments \<open>FIX 3.1\<close> (network state, local save with full metadata) and \<open>FIX 3.2\<close>
  (always ensure location). Both have the state below; \<open>isOnline\<close> exists in the later
  one only.\<close>

record VideoState =
  recordingUri :: "string option"
  v_caption :: string
  v_isAnonymous :: bool
  v_loading :: bool
  uploadProgress :: nat
  v_location :: "Position option"
  savedDuration :: nat
  durationRef :: nat
  showCaptionModal :: bool
  isOnline :: bool

definition MIN_RECORDING_DURATION :: nat where
  "MIN_RECORDING_DURATION = 2"

text \<open>The \<open>try\<close> block both versions share, from the token to the upload; \<open>extra\<close> is
  the \<open>accuracy\<close> and \<open>timestamp\<close> the later version adds to the body. The \<open>catch\<close>
  block offers the local save, the \<open>finally\<close> block ends the loading state.\<close>

definition uploadVideo ::
  "ReportEnv \<Rightarrow> Position \<Rightarrow> nat \<Rightarrow> (real option \<times> string) option \<Rightarrow> action
     \<Rightarrow> VideoState \<times> World \<Rightarrow> VideoState \<times> World" where
  "uploadVideo env currentLocation finalDuration extra save sw =
     (case sw of (s, w) \<Rightarrow>
        let done = (\<lambda>s' w'. (s'\<lparr>v_loading := False\<rparr>, w'));
            failed = (\<lambda>s' w'. done s' (emit (Alert ''Upload Failed'' [NoAction, save]) w'))
        in (case r_authToken env of
              Throws e \<Rightarrow> failed s w
            | Returns tok \<Rightarrow>
                if \<not> truthy tok then done s (emit (RouterReplace ''/auth/login'') w)
                else
                  let s1 = s\<lparr>uploadProgress := 10\<rparr>
                  in (case r_fileInfo env of
                        Throws e \<Rightarrow> failed s1 w
                      | Returns (fileExists, fileSize) \<Rightarrow>
                          if \<not> fileExists \<or> fileSize = None \<or> fileSize = Some 0
                          then failed s1 w
                          else
                            let s2 = s1\<lparr>uploadProgress := 20\<rparr>
                            in (case r_base64 env of
                                  Throws e \<Rightarrow> failed s2 w
                                | Returns base64Video \<Rightarrow>
                                    if base64Video = [] then failed s2 w
                                    else
                                      let s3 = s2\<lparr>uploadProgress := 40\<rparr>;
                                          w1 = emit (Post ''/api/report/upload-video''
                                                 (VideoBody base64Video
                                                    (orDefault (v_caption s) ''Live security report'')
                                                    (v_isAnonymous s)
                                                    (pos_latitude currentLocation)
                                                    (pos_longitude currentLocation)
                                                    finalDuration extra)) w
                                      in (case r_uploadResult env of
                                            Throws e \<Rightarrow> failed s3 w1
                                          | Returns _ \<Rightarrow>
                                              done (s3\<lparr>uploadProgress := 100\<rparr>)
                                                (emit (Alert ''Success!'' [RouterBackAction]) w1))))))"

text \<open>The later version.\<close>

definition submitReport_video ::
  "ReportEnv \<Rightarrow> VideoState \<times> World \<Rightarrow> VideoState \<times> World" where
  "submitReport_video env sw =
     (case sw of (s, w) \<Rightarrow>
        if \<not> truthy (recordingUri s) then (s, emit (Alert ''Error'' []) w)
        else
          let finalDuration = savedDuration s
          in if finalDuration = 0 \<or> finalDuration < MIN_RECORDING_DURATION
             then (s, emit (Alert ''Invalid Duration'' [HideCaptionModal, NoAction]) w)
             else
               let s1 = s\<lparr>showCaptionModal := False, v_loading := True, uploadProgress := 0\<rparr>;
                   continue = (\<lambda>currentLocation s2.
                      if \<not> isOnline s2
                      then (s2\<lparr>v_loading := False\<rparr>,
                            emit (Alert ''Offline''
                                    [NoAction, SaveLocally (Some currentLocation) finalDuration]) w)
                      else uploadVideo env currentLocation finalDuration
                             (Some (pos_accuracy currentLocation, r_nowIso env))
                             (SaveLocally (Some currentLocation) finalDuration) (s2, w))
               in (case v_location s1 of
                     Some l \<Rightarrow> continue l s1
                   | None \<Rightarrow>
                       (case r_position env of
                          Throws e \<Rightarrow>
                            (s1\<lparr>v_loading := False\<rparr>,
                             emit (Alert ''Location Required'' [NoAction]) w)
                        | Returns l \<Rightarrow> continue l (s1\<lparr>v_location := Some l\<rparr>))))"

text \<open>\<open>x || 0\<close> on an optional number.\<close>

definition orZero :: "real option \<Rightarrow> real" where
  "orZero x = (case x of None \<Rightarrow> 0 | Some v \<Rightarrow> v)"

text \<open>\<open>JSON.parse(stored || '[]')\<close>: the list under the key, empty when the key is
  absent or holds the empty string; any other value is not a list of reports and the
  \<open>push\<close> throws.\<close>

definition pendingReports :: "World \<Rightarrow> PendingReport list outcome" where
  "pendingReports w =
     (case getItem w ''pending_video_reports'' of
        None \<Rightarrow> Returns []
      | Some (ReportsJson rs) \<Rightarrow> Returns rs
      | Some (Text t) \<Rightarrow> if t = [] then Returns [] else Throws (newError ''JSON'')
      | Some _ \<Rightarrow> Throws (newError ''push''))"

definition saveReportLocally_video ::
  "Position option \<Rightarrow> nat \<Rightarrow> ReportEnv \<Rightarrow> VideoState \<times> World \<Rightarrow> VideoState \<times> World" where
  "saveReportLocally_video loc duration env sw =
     (case sw of (s, w) \<Rightarrow>
        (case pendingReports w of
           Throws e \<Rightarrow> (s, emit (Alert ''Error'' []) w)
         | Returns reports \<Rightarrow>
             let reportData =
                   \<lparr>pr_id = r_nowMs env,
                    pr_uri = recordingUri s,
                    pr_caption = orDefault (v_caption s) ''Live security report'',
                    pr_is_anonymous = v_isAnonymous s,
                    pr_latitude = orZero (map_option pos_latitude loc),
                    pr_longitude = orZero (map_option pos_longitude loc),
                    pr_accuracy = Some (orZero (Option.bind loc pos_accuracy)),
                    pr_duration_seconds = duration,
                    pr_created_at = r_nowIso env,
                    pr_upload_status = Some ''pending''\<rparr>
             in (case r_storageWrite env of
                   Throws e \<Rightarrow> (s, emit (Alert ''Error'' []) w)
                 | Returns _ \<Rightarrow>
                     (s, emit (Alert ''Saved Locally'' [RouterBackAction])
                           (setItem ''pending_video_reports''
                              (ReportsJson (reports @ [reportData])) w)))))"

text \<open>The earlier version: no network check, and the fallback position when the
  fix fails. Its local save reads the \<open>location\<close> state, so the button carries that.
  (A third copy of the screen differs from this one only in hiding the caption modal
  on submit and in the wording of two alerts.)\<close>

definition submitReport_video_old ::
  "ReportEnv \<Rightarrow> VideoState \<times> World \<Rightarrow> VideoState \<times> World" where
  "submitReport_video_old env sw =
     (case sw of (s, w) \<Rightarrow>
        if \<not> truthy (recordingUri s) then (s, emit (Alert ''Error'' []) w)
        else
          let finalDuration = (if savedDuration s > 0 then savedDuration s else durationRef s)
          in if finalDuration = 0 then (s, emit (Alert ''Error'' []) w)
             else
               let s1 = s\<lparr>v_loading := True, uploadProgress := 0\<rparr>;
                   currentLocation =
                     (case v_location s1 of
                        Some l \<Rightarrow> l
                      | None \<Rightarrow> (case r_position env of
                                    Throws e \<Rightarrow> fallbackPosition
                                  | Returns l \<Rightarrow> l))
               in uploadVideo env currentLocation finalDuration None
                    (SaveLocally (v_location s1) finalDuration) (s1, w))"

text \<open>\<open>x || d\<close> on an optional number: 0 is falsy too.\<close>

definition orNumber :: "real option \<Rightarrow> real \<Rightarrow> real" where
  "orNumber x d = (case x of None \<Rightarrow> d | Some v \<Rightarrow> if v = 0 then d else v)"

text \<open>The local save of the earlier version: no \<open>accuracy\<close>, no
  \<open>upload_status\<close>, and the fallback position when none is held.\<close>

definition saveReportLocally_video_old ::
  "nat \<Rightarrow> ReportEnv \<Rightarrow> VideoState \<times> World \<Rightarrow> VideoState \<times> World" where
  "saveReportLocally_video_old duration env sw =
     (case sw of (s, w) \<Rightarrow>
        (case pendingReports w of
           Throws e \<Rightarrow> (s, emit (Alert ''Error'' []) w)
         | Returns reports \<Rightarrow>
             let reportData =
                   \<lparr>pr_id = r_nowMs env,
                    pr_uri = recordingUri s,
                    pr_caption = orDefault (v_caption s) ''Live security report'',
                    pr_is_anonymous = v_isAnonymous s,
                    pr_latitude = orNumber (map_option pos_latitude (v_location s)) 9.0820,
                    pr_longitude = orNumber (map_option pos_longitude (v_location s)) 8.6753,
                    pr_accuracy = None,
                    pr_duration_seconds = duration,
                    pr_created_at = r_nowIso env,
                    pr_upload_status = None\<rparr>
             in (case r_storageWrite env of
                   Throws e \<Rightarrow> (s, emit (Alert ''Error'' []) w)
                 | Returns _ \<Rightarrow>
                     (s, emit (Alert ''Saved'' [RouterBackAction])
                           (setItem ''pending_video_reports''
                              (ReportsJson (reports @ [reportData])) w)))))"

section \<open>Observations on traces\<close>

text \<open>The effects a handler added to the trace of the world it started from.\<close>

definition newEffects :: "World \<Rightarrow> World \<Rightarrow> effect list" where
  "newEffects w w' = drop (length (trace w)) (trace w')"

text \<open>Session activations: the requests to \<open>/api/panic/activate\<close>.\<close>

definition isEscortStart :: "effect \<Rightarrow> bool" where
  "isEscortStart e = (e = Post ''/api/escort/action'' (EscortActionBody ''start''))"

definition escortStarts :: "effect list \<Rightarrow> nat" where
  "escortStarts tr = length (filter isEscortStart tr)"

definition isActivation :: "effect \<Rightarrow> bool" where
  "isActivation e = (case e of Post url b \<Rightarrow> url = ''/api/panic/activate'' | _ \<Rightarrow> False)"

definition activations :: "effect list \<Rightarrow> nat" where
  "activations tr = length (filter isActivation tr)"

definition returned :: "'a outcome \<Rightarrow> bool" where
  "returned r = (case r of Returns _ \<Rightarrow> True | Throws _ \<Rightarrow> False)"

text \<open>The outside lets \<open>activatePanicMode\<close> reach its request: the foreground
  permission is granted, the background request and the position fix return, and
  there is a token.\<close>

definition canActivate :: "CivilEnv \<Rightarrow> bool" where
  "canActivate env =
     (c_fgStatus env = Returns ''granted'' \<and> returned (c_bgRequest env)
      \<and> returned (c_position env)
      \<and> (case c_authToken env of Returns tok \<Rightarrow> truthy tok | Throws _ \<Rightarrow> False))"

text \<open>There is an auth token.\<close>

definition tokenHeld :: "string option outcome \<Rightarrow> bool" where
  "tokenHeld tokenResult =
     (case tokenResult of Returns tok \<Rightarrow> truthy tok | Throws _ \<Rightarrow> False)"

text \<open>The outside lets a deactivation run to its end: the token is read, and the
  request, which is sent only with a token, is answered.\<close>

definition completes :: "string option outcome \<Rightarrow> unit outcome \<Rightarrow> bool" where
  "completes tokenResult requestResult =
     (case tokenResult of
        Throws _ \<Rightarrow> False
      | Returns tok \<Rightarrow> \<not> truthy tok \<or> returned requestResult)"

definition isAlertTitled :: "string \<Rightarrow> effect \<Rightarrow> bool" where
  "isAlertTitled title e = (case e of Alert t _ \<Rightarrow> t = title | _ \<Rightarrow> False)"

text \<open>Reading a trace from its start, the timer \<open>t\<close> is cleared before any alert
  with the given title is shown.\<close>

fun cancelledBefore :: "nat \<Rightarrow> string \<Rightarrow> effect list \<Rightarrow> bool" where
  "cancelledBefore t title [] = True"
| "cancelledBefore t title (e # es) =
     (if e = ClearInterval t then True
      else if isAlertTitled title e then False
      else cancelledBefore t title es)"

text \<open>The periods, in milliseconds, of the foreground timers and background location
  updates a trace starts.\<close>

fun periodOf :: "effect \<Rightarrow> nat option" where
  "periodOf (SetInterval t ms) = Some ms"
| "periodOf (StartLocationUpdates task ms) = Some ms"
| "periodOf e = None"

definition samplingPeriods :: "effect list \<Rightarrow> nat list" where
  "samplingPeriods tr = List.map_filter periodOf tr"

text \<open>A history ordered by capture time, newest first: of any two entries with
  valid timestamps the one in front is not the earlier one.\<close>

definition notEarlier :: "(string \<Rightarrow> int option) \<Rightarrow> LocationEntry \<Rightarrow> LocationEntry \<Rightarrow> bool" where
  "notEarlier getTime a b =
     (case getTime (le_timestamp a) of
        None \<Rightarrow> False
      | Some ta \<Rightarrow> (case getTime (le_timestamp b) of None \<Rightarrow> False | Some tb \<Rightarrow> tb \<le> ta))"

definition newestFirst :: "(string \<Rightarrow> int option) \<Rightarrow> LocationEntry list \<Rightarrow> bool" where
  "newestFirst getTime h = sorted_wrt (notEarlier getTime) h"

text \<open>Every timestamp of the entries is a date.\<close>

definition datesValid :: "(string \<Rightarrow> int option) \<Rightarrow> LocationEntry list \<Rightarrow> bool" where
  "datesValid getTime h = list_all (\<lambda>l. getTime (le_timestamp l) \<noteq> None) h"

text \<open>The entries of an answer that one call of \<open>loadTrackData\<close> adds to a
  history: those whose exact timestamp the history does not hold.\<close>

definition freshEntries :: "LocationEntry list \<Rightarrow> LocationEntry list \<Rightarrow> LocationEntry list" where
  "freshEntries prev incoming =
     filter (\<lambda>l. le_timestamp l \<notin> le_timestamp ` set prev) incoming"

text \<open>The entries an answer carries.\<close>

fun entriesOf :: "LocationEntry list option outcome \<Rightarrow> LocationEntry list" where
  "entriesOf (Returns (Some entries)) = entries"
| "entriesOf r = []"

text \<open>The position a video submission goes on with: the one held in the state, or
  the fix obtained on submit.\<close>

definition fixOf :: "ReportEnv \<Rightarrow> VideoState \<Rightarrow> Position option" where
  "fixOf env s =
     (case v_location s of
        Some l \<Rightarrow> Some l
      | None \<Rightarrow> (case r_position env of Returns l \<Rightarrow> Some l | Throws _ \<Rightarrow> None))"

definition isUpload :: "effect \<Rightarrow> bool" where
  "isUpload e = (case e of Post url b \<Rightarrow> url = ''/api/report/upload-video'' | _ \<Rightarrow> False)"

section \<open>Sample inputs\<close>

definition world0 :: World where
  "world0 = \<lparr>storage = Map.empty, timers = [], nextTimer = 1, trace = []\<rparr>"

definition lockEnv0 :: LockEnv where
  "lockEnv0 = \<lparr>fgStatus = Returns ''granted'', bgRequest = Returns (),
     authToken = Returns (Some ''token''), activateResult = Returns (Some ''panic-1''),
     deactivateResult = Returns (), customizeResult = Returns (),
     nowText = ''1704067200000'', platformOS = ''android''\<rparr>"

text \<open>The PIN screen with the given slots and wrong-attempt count.\<close>

definition lockedAt :: "string list \<Rightarrow> nat \<Rightarrow> LockState" where
  "lockedAt ds n =
     initialLockState\<lparr>screen := pin_entry, isTracking := True, pinDigits := ds,
                        wrongAttempts := n\<rparr>"

text \<open>The storage of a device on which a panic has been activated.\<close>

definition world1 :: World where
  "world1 = world0\<lparr>storage := [''panic_active'' \<mapsto> Text ''true'',
                                  ''panic_id'' \<mapsto> Text ''panic-1'']\<rparr>"

text \<open>A request that got no answer.\<close>

definition networkError :: JsError where
  "networkError = \<lparr>err_response = None, err_code = None, err_request = True,
                    err_message = Some ''Network Error''\<rparr>"

definition samplePosition :: Position where
  "samplePosition = \<lparr>pos_latitude = 6.5244, pos_longitude = 3.3792, pos_accuracy = Some 5\<rparr>"

definition civilEnv0 :: CivilEnv where
  "civilEnv0 = \<lparr>c_jsonParse = (\<lambda>t. Throws (newError ''Unexpected token'')),
     c_fgStatus = Returns ''granted'', c_bgRequest = Returns (),
     c_position = Returns samplePosition, c_authToken = Returns (Some ''token''),
     c_activateResult = Returns (Some ''panic-1''), c_deactivateResult = Returns (),
     c_nowIso = ''2024-01-01T00:00:00.000Z''\<rparr>"

text \<open>The user refuses the location permission.\<close>

definition civilEnvDenied :: CivilEnv where
  "civilEnvDenied = civilEnv0\<lparr>c_fgStatus := Returns ''denied''\<rparr>"

text \<open>The request is sent and its answer never arrives.\<close>

definition civilEnvLost :: CivilEnv where
  "civilEnvLost = civilEnv0\<lparr>c_activateResult := Throws networkError\<rparr>"

text \<open>The storage of a device on which the category-routed screen has activated a
  panic.\<close>

definition panicRecord :: ActivePanic where
  "panicRecord = \<lparr>ap_id = Some ''panic-1'', ap_category = ''robbery'',
                   ap_activated_at = ''2024-01-01T00:00:00.000Z''\<rparr>"

definition worldPanic :: World where
  "worldPanic = world0\<lparr>storage := [''active_panic'' \<mapsto> PanicJson panicRecord,
                                      ''auth_token'' \<mapsto> Text ''token'']\<rparr>"

text \<open>The PIN-locked screen showing the active panic while the app is in the
  background.\<close>

definition activeInBackground :: LockState where
  "activeInBackground =
     initialLockState\<lparr>screen := active, isTracking := True, appStateRef := app_background\<rparr>"

definition escortEnv0 :: EscortEnv where
  "escortEnv0 = \<lparr>e_fgStatus = Returns ''granted'', e_bgStatus = Returns ''granted'',
     e_authToken = Returns (Some ''token''), e_startResult = Returns (Some ''escort-1''),
     e_stopResult = Returns ()\<rparr>"

definition escort0 :: EscortState where
  "escort0 = \<lparr>e_isTracking = True, e_loading = False, sessionId = Some ''escort-1'',
               e_intervalRef = None\<rparr>"

definition reportEnv0 :: ReportEnv where
  "reportEnv0 = \<lparr>r_position = Returns samplePosition, r_authToken = Returns (Some ''token''),
     r_fileInfo = Returns (True, Some 2048), r_base64 = Returns ''AAAA'',
     r_uploadResult = Returns (), r_nowIso = ''2024-01-01T00:00:00.000Z'',
     r_nowMs = ''1704067200000'', r_storageWrite = Returns ()\<rparr>"

text \<open>No position fix can be had.\<close>

definition reportEnvNoFix :: ReportEnv where
  "reportEnvNoFix = reportEnv0\<lparr>r_position := Throws (newError ''Location unavailable'')\<rparr>"

text \<open>The upload gets no answer.\<close>

definition reportEnvNetDown :: ReportEnv where
  "reportEnvNetDown = reportEnv0\<lparr>r_uploadResult := Throws networkError\<rparr>"

text \<open>A recorded audio, respectively video, report on a screen that holds no position.\<close>

definition audio0 :: AudioState where
  "audio0 = \<lparr>audioUri = Some ''file:///report.m4a'', a_caption = [], a_isAnonymous = False,
              a_loading = False, a_location = None, a_recordingDuration = 12\<rparr>"

definition video0 :: VideoState where
  "video0 = \<lparr>recordingUri = Some ''file:///report.mp4'', v_caption = [],
              v_isAnonymous = False, v_loading = False, uploadProgress = 0,
              v_location = None, savedDuration = 12, durationRef = 12,
              showCaptionModal = True, isOnline = True\<rparr>"

section \<open>The PIN state machine\<close>

lemma handleWrongPin_attempts:
  "wrongAttempts (fst (handleWrongPin env (s, w))) = wrongAttempts s + 1"
  by (simp add: handleWrongPin_def triggerDisguise_def Let_def)

lemma handleWrongPin_screen:
  "screen (fst (handleWrongPin env (s, w)))
     = (if wrongAttempts s + 1 \<ge> 2 then disguise else screen s)"
  by (simp add: handleWrongPin_def triggerDisguise_def Let_def)

lemma handlePinInput_complete:
  assumes "enteredPinAfter (pinDigits s) digit = Some p" and "length p = 4"
  shows "handlePinInput digit env (s, w) =
           (if p = expectedPin w
            then (s\<lparr>pinDigits := [[], [], [], []], pinError := [], screen := active\<rparr>, w)
            else handleWrongPin env
                   (s\<lparr>pinDigits :=
                        (pinDigits s)[the (findIndexEmpty (pinDigits s)) := digit]\<rparr>, w))"
  using assms
  by (auto simp: handlePinInput_def enteredPinAfter_def expectedPin_def Let_def
           split: option.splits)

lemma handlePinInput_incomplete:
  assumes "enteredPinAfter (pinDigits s) digit = Some p" and "length p \<noteq> 4"
  shows "handlePinInput digit env (s, w) =
           (s\<lparr>pinDigits := (pinDigits s)[the (findIndexEmpty (pinDigits s)) := digit]\<rparr>, w)"
  using assms
  by (auto simp: handlePinInput_def enteredPinAfter_def Let_def split: option.splits)

lemma handlePinInput_full:
  assumes "enteredPinAfter (pinDigits s) digit = None"
  shows "handlePinInput digit env (s, w) = (s, w)"
  using assms
  by (auto simp: handlePinInput_def enteredPinAfter_def Let_def split: option.splits)

lemma pressKey_active:
  assumes "screen s = pin_entry" and "screen (fst (pressKey key env (s, w))) = active"
  shows "\<exists>p. enteredPinAfter (pinDigits s) key = Some p \<and> length p = 4 \<and> p = expectedPin w"
proof (cases "enteredPinAfter (pinDigits s) key")
  case None
  with assms show ?thesis
    by (auto simp: pressKey_def handlePinBackspace_def handlePinInput_full split: if_splits)
next
  case (Some p)
  show ?thesis
  proof (cases "length p = 4")
    case True
    with assms Some show ?thesis
      by (auto simp: pressKey_def handlePinBackspace_def handlePinInput_complete
            handleWrongPin_screen split: if_splits)
  next
    case False
    with assms Some show ?thesis
      by (auto simp: pressKey_def handlePinBackspace_def handlePinInput_incomplete
            split: if_splits)
  qed
qed

lemma disguise_stays:
  assumes "screen s = disguise" and "ev \<noteq> AppStateChanged app_active"
  shows "screen (fst (step env ev (s, w))) = disguise"
  using assms
  by (cases ev) (auto simp: step_def onAppStateChange_def onHardwareBack_def Let_def)

text \<open>The callback of a read leaves the \<open>disguise\<close> screen only as the callback of the
  foreground listener, and only when the read returned \<open>'true'\<close>; while the
  disguise is shown, such a read is issued by no event other than
  \<open>AppStateChanged app_active\<close>.\<close>

lemma disguise_until_read_returns:
  assumes "screen s = disguise"
  shows "screen (fst (resolvePending env (s, w)))
         = (if \<exists>ks. pending s = ShowPin (Some (Text ''true'')) # ks
            then pin_entry else disguise)"
proof (cases "pending s")
  case Nil
  with assms show ?thesis by (simp add: resolvePending_def)
next
  case (Cons k ks)
  with assms show ?thesis
    by (cases k) (auto simp: resolvePending_def)
qed

lemma reads_issued_by_foreground_only:
  assumes "screen s = disguise" and "ev \<noteq> AppStateChanged app_active"
  shows "filter (\<lambda>k. \<exists>v. k = ShowPin v) (pending (fst (step env ev (s, w))))
         = filter (\<lambda>k. \<exists>v. k = ShowPin v) (pending s)"
  using assms
  by (cases ev) (auto simp: step_def onAppStateChange_def onHardwareBack_def Let_def)

lemma entered_1234: "enteredPinAfter (pinDigits (lockedAt [''1'', ''2'', ''3'', []] n)) ''4'' = Some ''1234''"
  by (simp add: enteredPinAfter_def lockedAt_def initialLockState_def)

lemma entered_1235: "enteredPinAfter (pinDigits (lockedAt [''1'', ''2'', ''3'', []] n)) ''5'' = Some ''1235''"
  by (simp add: enteredPinAfter_def lockedAt_def initialLockState_def)

lemma no_pin_world0: "\<not> truthy (storedPinOf world0)"
  by (simp add: truthy_def storedPinOf_def getItem_def world0_def)

lemma expectedPin_world0: "expectedPin world0 = ''1234''"
  by (simp add: expectedPin_def no_pin_world0)

text \<open>
  C10. When no security PIN is stored (the key is absent or holds the empty string), a
  completed four-character entry is accepted exactly if it is \<open>1234\<close>: then the screen
  becomes \<open>active\<close>, the slots and the error text are cleared and nothing else changes.
  Every other completed entry is a wrong attempt: the wrong-attempt counter goes up by
  one and the screen is not \<open>active\<close> afterwards (it is \<open>disguise\<close> from the second
  wrong attempt on, and unchanged before).
\<close>

theorem default_pin_is_1234:
  assumes "enteredPinAfter (pinDigits s) digit = Some p" and "length p = 4"
      and "\<not> truthy (storedPinOf w)"
  shows "(p = ''1234'' \<longrightarrow>
            handlePinInput digit env (s, w)
              = (s\<lparr>pinDigits := [[], [], [], []], pinError := [], screen := active\<rparr>, w))
       \<and> (p \<noteq> ''1234'' \<longrightarrow>
            wrongAttempts (fst (handlePinInput digit env (s, w))) = wrongAttempts s + 1
          \<and> screen (fst (handlePinInput digit env (s, w)))
              = (if wrongAttempts s + 1 \<ge> 2 then disguise else screen s))"
  using assms
  by (simp add: handlePinInput_complete expectedPin_def handleWrongPin_attempts
        handleWrongPin_screen)

theorem default_pin_is_1234_witness:
  "enteredPinAfter (pinDigits (lockedAt [''1'', ''2'', ''3'', []] 0)) ''4'' = Some ''1234''
   \<and> \<not> truthy (storedPinOf world0)
   \<and> screen (fst (handlePinInput ''4'' lockEnv0 (lockedAt [''1'', ''2'', ''3'', []] 0, world0)))
       = active
   \<and> enteredPinAfter (pinDigits (lockedAt [''1'', ''2'', ''3'', []] 0)) ''5'' = Some ''1235''
   \<and> screen (fst (handlePinInput ''5'' lockEnv0 (lockedAt [''1'', ''2'', ''3'', []] 0, world0)))
       = pin_entry
   \<and> wrongAttempts
        (fst (handlePinInput ''5'' lockEnv0 (lockedAt [''1'', ''2'', ''3'', []] 0, world0))) = 1"
proof -
  have l: "length ''1234'' = 4" "length ''1235'' = 4" by simp_all
  from default_pin_is_1234 [OF entered_1234 [of 0] l(1) no_pin_world0, of lockEnv0]
       default_pin_is_1234 [OF entered_1235 [of 0] l(2) no_pin_world0, of lockEnv0]
  show ?thesis
    using entered_1234 [of 0] entered_1235 [of 0] no_pin_world0
    by (simp add: lockedAt_def initialLockState_def)
qed

text \<open>
  C4, as stated, fails on the last part: with one wrong attempt counted, the correct PIN
  opens the \<open>active\<close> screen and the counter still reads one.
\<close>

theorem correct_pin_keeps_counter:
  "screen (fst (handlePinInput ''4'' lockEnv0 (lockedAt [''1'', ''2'', ''3'', []] 1, world0)))
     = active
   \<and> wrongAttempts
       (fst (handlePinInput ''4'' lockEnv0 (lockedAt [''1'', ''2'', ''3'', []] 1, world0))) \<noteq> 0"
  by (simp add: handlePinInput_def lockedAt_def initialLockState_def world0_def
        storedPinOf_def getItem_def truthy_def Let_def)

text \<open>
  C4, amended. A rejected four-character entry increments the wrong-attempt counter, and
  when the incremented counter is at least 2 the screen becomes \<open>disguise\<close> (before
  that it stays as it is). A correct entry makes the screen \<open>active\<close>, clears the slots
  and leaves the wrong-attempt counter unchanged. On the \<open>disguise\<close> screen every event
  other than a change of the app state to the foreground leaves the screen \<open>disguise\<close>.
\<close>

theorem pin_entry_outcome:
  "(enteredPinAfter (pinDigits s) digit = Some p \<and> length p = 4 \<and> p \<noteq> expectedPin w \<longrightarrow>
      wrongAttempts (fst (handlePinInput digit env (s, w))) = wrongAttempts s + 1
    \<and> screen (fst (handlePinInput digit env (s, w)))
        = (if wrongAttempts s + 1 \<ge> 2 then disguise else screen s))
 \<and> (enteredPinAfter (pinDigits s) digit = Some p \<and> length p = 4 \<and> p = expectedPin w \<longrightarrow>
      screen (fst (handlePinInput digit env (s, w))) = active
    \<and> wrongAttempts (fst (handlePinInput digit env (s, w))) = wrongAttempts s
    \<and> pinDigits (fst (handlePinInput digit env (s, w))) = [[], [], [], []])
 \<and> (screen s = disguise \<and> ev \<noteq> AppStateChanged app_active \<longrightarrow>
      screen (fst (step env ev (s, w))) = disguise)"
  (is "(?rejected \<longrightarrow> ?counted) \<and> (?accepted \<longrightarrow> ?opened) \<and> (?disguised \<longrightarrow> ?kept)")
proof -
  have wrong: "?rejected \<longrightarrow> ?counted"
  proof
    assume a: ?rejected
    then have "handlePinInput digit env (s, w) =
        handleWrongPin env
          (s\<lparr>pinDigits := (pinDigits s)[the (findIndexEmpty (pinDigits s)) := digit]\<rparr>, w)"
      by (simp add: handlePinInput_complete)
    then show ?counted
      by (simp add: handleWrongPin_attempts handleWrongPin_screen)
  qed
  have right: "?accepted \<longrightarrow> ?opened"
  proof
    assume a: ?accepted
    then have e: "enteredPinAfter (pinDigits s) digit = Some p" and l: "length p = 4"
      and q: "p = expectedPin w" by blast+
    have "handlePinInput digit env (s, w) =
        (s\<lparr>pinDigits := [[], [], [], []], pinError := [], screen := active\<rparr>, w)"
      unfolding handlePinInput_complete [OF e l] using q by simp
    then show ?opened by simp
  qed
  have stays: "?disguised \<longrightarrow> ?kept"
    by (simp add: disguise_stays)
  from wrong right stays show ?thesis by blast
qed

theorem pin_entry_outcome_witness:
  "wrongAttempts
     (fst (handlePinInput ''5'' lockEnv0 (lockedAt [''1'', ''2'', ''3'', []] 1, world0))) = 2
   \<and> screen (fst (handlePinInput ''5'' lockEnv0 (lockedAt [''1'', ''2'', ''3'', []] 1, world0)))
       = disguise
   \<and> screen (fst (handlePinInput ''4'' lockEnv0 (lockedAt [''1'', ''2'', ''3'', []] 1, world0)))
       = active
   \<and> wrongAttempts
       (fst (handlePinInput ''4'' lockEnv0 (lockedAt [''1'', ''2'', ''3'', []] 1, world0))) = 1
   \<and> screen (fst (step lockEnv0 HardwareBack (initialLockState\<lparr>screen := disguise\<rparr>, world0)))
       = disguise"
proof -
  have d: "screen (initialLockState\<lparr>screen := disguise\<rparr>) = disguise"
    "HardwareBack \<noteq> AppStateChanged app_active" by simp_all
  from pin_entry_outcome [where s = "lockedAt [''1'', ''2'', ''3'', []] 1" and digit = "''5''"
         and p = "''1235''" and w = world0 and env = lockEnv0]
       pin_entry_outcome [where s = "lockedAt [''1'', ''2'', ''3'', []] 1" and digit = "''4''"
         and p = "''1234''" and w = world0 and env = lockEnv0]
       pin_entry_outcome [where s = "initialLockState\<lparr>screen := disguise\<rparr>" and w = world0
         and env = lockEnv0 and ev = HardwareBack]
  show ?thesis
    using entered_1234 [of 1] entered_1235 [of 1] expectedPin_world0 d
    by (simp add: lockedAt_def initialLockState_def)
qed

section \<open>Activation, resumption and deactivation\<close>

lemma newEffects_append: "trace w' = trace w @ es \<Longrightarrow> newEffects w w' = es"
  by (simp add: newEffects_def)

lemma newEffects_same: "newEffects w w = []"
  by (simp add: newEffects_def)

lemma activatePanicMode_civil_trace:
  "\<exists>es. trace (snd (activatePanicMode_civil category env (s, w))) = trace w @ es
      \<and> activations es = (if canActivate env then 1 else 0)"
  by (auto simp: activatePanicMode_civil_def canActivate_def returned_def Let_def emit_def
        setItem_def startLocationTracking_civil_def setInterval_def clearRef_def
        clearInterval_def activations_def isActivation_def
      split: outcome.splits option.splits)

lemma activatePanicMode_civil_count:
  "activations (newEffects w (snd (activatePanicMode_civil category env (s, w))))
     = (if canActivate env then 1 else 0)"
  using activatePanicMode_civil_trace [of category env s w]
  by (auto simp: newEffects_append)

lemma activatePanicMode_civil_session:
  assumes "canActivate env" and "c_activateResult env = Returns pid"
  shows "panicId (fst (activatePanicMode_civil category env (s, w))) = pid"
    and "getItem (snd (activatePanicMode_civil category env (s, w))) ''active_panic''
           = Some (PanicJson \<lparr>ap_id = pid, ap_category = category,
                               ap_activated_at = c_nowIso env\<rparr>)"
  using assms
  by (auto simp: activatePanicMode_civil_def canActivate_def returned_def Let_def emit_def
        setItem_def getItem_def startLocationTracking_civil_def setInterval_def clearRef_def
        clearInterval_def
      split: outcome.splits option.splits)

lemma robbery_is_security: "''robbery'' \<in> set SECURITY_EMERGENCIES"
  by (simp add: SECURITY_EMERGENCIES_def)

lemma canActivate_civilEnv0: "canActivate civilEnv0"
  by (simp add: canActivate_def civilEnv0_def returned_def truthy_def)

lemma not_canActivate_denied: "\<not> canActivate civilEnvDenied"
  by (simp add: canActivate_def civilEnvDenied_def civilEnv0_def)

text \<open>
  C1, as stated, fails for the categories that notify agencies: when the user refuses
  the location permission, selecting \<open>robbery\<close> performs no activation.
\<close>

theorem robbery_without_permission:
  "''robbery'' \<in> set SECURITY_EMERGENCIES
   \<and> activations
       (newEffects world0
          (snd (handleCategorySelect ''robbery'' civilEnvDenied (initialCivilState, world0))))
     = 0"
  by (simp add: SECURITY_EMERGENCIES_def handleCategorySelect_def Let_def
        activatePanicMode_civil_def civilEnvDenied_def civilEnv0_def newEffects_def
        world0_def emit_def activations_def isActivation_def)

text \<open>
  C1, amended. If the selected category is \<open>medical\<close> or \<open>fire\<close>, the selection
  touches nothing outside the screen (no request, no storage write, no timer), creates no
  session (the panic id and the tracking flag stay as they are) and shows the ambulance,
  respectively fire, contacts. For each of \<open>violence\<close>, \<open>robbery\<close>,
  \<open>kidnapping\<close>, \<open>breakin\<close>, \<open>harassment\<close> and \<open>other\<close> the selection runs
  \<open>activatePanicMode\<close> once, which performs exactly one session activation when the
  foreground location permission is granted, the background request and the position
  fix return and an auth token exists, and none otherwise.
\<close>

theorem category_routing:
  "(category = ''medical'' \<or> category = ''fire'' \<longrightarrow>
      snd (handleCategorySelect category env (s, w)) = w
    \<and> showEmergencyContacts (fst (handleCategorySelect category env (s, w)))
        = Some (if category = ''medical'' then ''ambulance'' else ''fire'')
    \<and> panicId (fst (handleCategorySelect category env (s, w))) = panicId s
    \<and> c_isTracking (fst (handleCategorySelect category env (s, w))) = c_isTracking s)
 \<and> (category \<in> set SECURITY_EMERGENCIES \<longrightarrow>
      handleCategorySelect category env (s, w)
        = activatePanicMode_civil category env
            (s\<lparr>selectedCategory := Some category, showCategoryModal := False\<rparr>, w)
    \<and> activations (newEffects w (snd (handleCategorySelect category env (s, w))))
        = (if canActivate env then 1 else 0))"
proof -
  have routed: "category = ''medical'' \<or> category = ''fire'' \<longrightarrow>
      snd (handleCategorySelect category env (s, w)) = w
    \<and> showEmergencyContacts (fst (handleCategorySelect category env (s, w)))
        = Some (if category = ''medical'' then ''ambulance'' else ''fire'')
    \<and> panicId (fst (handleCategorySelect category env (s, w))) = panicId s
    \<and> c_isTracking (fst (handleCategorySelect category env (s, w))) = c_isTracking s"
    by (auto simp: handleCategorySelect_def Let_def)
  have activated: "category \<in> set SECURITY_EMERGENCIES \<longrightarrow>
      handleCategorySelect category env (s, w)
        = activatePanicMode_civil category env
            (s\<lparr>selectedCategory := Some category, showCategoryModal := False\<rparr>, w)"
    by (auto simp: handleCategorySelect_def Let_def SECURITY_EMERGENCIES_def)
  from routed activated show ?thesis
    by (simp add: activatePanicMode_civil_count)
qed

theorem category_routing_witness:
  "snd (handleCategorySelect ''fire'' civilEnv0 (initialCivilState, world0)) = world0
   \<and> showEmergencyContacts (fst (handleCategorySelect ''fire'' civilEnv0 (initialCivilState, world0)))
       = Some ''fire''
   \<and> ''robbery'' \<in> set SECURITY_EMERGENCIES
   \<and> activations
       (newEffects world0
          (snd (handleCategorySelect ''robbery'' civilEnv0 (initialCivilState, world0)))) = 1"
proof -
  from category_routing [of "''fire''" civilEnv0 initialCivilState world0]
  have fire: "snd (handleCategorySelect ''fire'' civilEnv0 (initialCivilState, world0)) = world0
    \<and> showEmergencyContacts
        (fst (handleCategorySelect ''fire'' civilEnv0 (initialCivilState, world0)))
        = Some ''fire''"
    by simp
  from category_routing [of "''robbery''" civilEnv0 initialCivilState world0]
       robbery_is_security
  have "activations
       (newEffects world0
          (snd (handleCategorySelect ''robbery'' civilEnv0 (initialCivilState, world0))))
       = (if canActivate civilEnv0 then 1 else 0)"
    by blast
  with canActivate_civilEnv0 fire robbery_is_security show ?thesis by simp
qed

lemma checkActivePanic_resumes:
  assumes "getItem w ''active_panic'' = Some (PanicJson d)"
  shows "fst (checkActivePanic env (s, w))
           = s\<lparr>panicId := ap_id d, selectedCategory := Some (ap_category d),
                c_isTracking := True, showSafeButton := True, showCategoryModal := False,
                c_intervalRef := (if tokenHeld (c_authToken env) then Some (nextTimer w)
                                  else c_intervalRef s)\<rparr>"
    and "storage (snd (checkActivePanic env (s, w))) = storage w"
    and "activations (newEffects w (snd (checkActivePanic env (s, w)))) = 0"
    and "newEffects w (snd (checkActivePanic env (s, w)))
           = (if tokenHeld (c_authToken env)
              then (case c_intervalRef s of None \<Rightarrow> [] | Some t \<Rightarrow> [ClearInterval t])
                   @ [SetInterval (nextTimer w) 30000,
                      StartLocationUpdates LOCATION_TASK 30000]
              else [])"
    and "tokenHeld (c_authToken env) \<Longrightarrow>
           (nextTimer w, 30000) \<in> set (timers (snd (checkActivePanic env (s, w))))"
  using assms
  by (auto simp: checkActivePanic_def Let_def emit_def getItem_def newEffects_def
        tokenHeld_def startLocationTracking_civil_def setInterval_def clearRef_def
        clearInterval_def activations_def isActivation_def
      split: outcome.splits option.splits)

lemma selectCategory_hidden:
  assumes "c_isTracking s" and "showSafeButton s"
  shows "selectCategory category env (s, w) = (s, w)"
  using assms by (simp add: selectCategory_def civilView_def split: option.splits)

lemma checkPanicState_believed:
  assumes "getItem w ''panic_active'' = Some (Text ''true'')"
  shows "fst (checkPanicState env (s, w))
           = s\<lparr>isTracking := True, screen := pin_entry, elapsedRef := Some (nextTimer w)\<rparr>"
    and "storage (snd (checkPanicState env (s, w))) = storage w"
    and "activations (newEffects w (snd (checkPanicState env (s, w)))) = 0"
    and "newEffects w (snd (checkPanicState env (s, w)))
           = (case elapsedRef s of None \<Rightarrow> [] | Some t \<Rightarrow> [ClearInterval t])
             @ [SetInterval (nextTimer w) 1000]"
  using assms
  by (auto simp: checkPanicState_def startElapsedTimer_def setInterval_def clearRef_def
        clearInterval_def emit_def getItem_def newEffects_def activations_def
        isActivation_def
      split: option.splits)

text \<open>
  C2, as stated, fails. On the category-routed screen a first selection whose request is
  sent but whose answer is lost leaves no record on the device; when the screen is
  opened again nothing is resumed and the next selection sends a second activation.
  The escort screen keeps no record at all: started, left and opened again, it sends a
  second start request and takes whatever session id comes back.
\<close>

theorem second_activation_is_sent:
  "activations
     (newEffects world0
        (snd (selectCategory ''robbery'' civilEnv0
                (checkActivePanic civilEnv0
                   (initialCivilState,
                    snd (cleanup_civil
                           (selectCategory ''robbery'' civilEnvLost
                              (initialCivilState, world0)))))))) = 2
   \<and> escortStarts
       (newEffects world0
          (snd (startEscort (escortEnv0\<lparr>e_startResult := Returns (Some ''escort-2'')\<rparr>)
                  (initialEscortState,
                   snd (cleanup_escort (startEscort escortEnv0 (initialEscortState, world0)))))))
       = 2
   \<and> sessionId (fst (startEscort escortEnv0 (initialEscortState, world0))) = Some ''escort-1''
   \<and> sessionId
       (fst (startEscort (escortEnv0\<lparr>e_startResult := Returns (Some ''escort-2'')\<rparr>)
               (initialEscortState,
                snd (cleanup_escort (startEscort escortEnv0 (initialEscortState, world0))))))
       = Some ''escort-2''"
  by (simp add: selectCategory_def civilView_def handleCategorySelect_def
        SECURITY_EMERGENCIES_def activatePanicMode_civil_def checkActivePanic_def
        cleanup_civil_def civilEnvLost_def civilEnv0_def networkError_def is401_def
        startLocationTracking_civil_def initialCivilState_def world0_def truthy_def
        setInterval_def clearRef_def clearInterval_def emit_def setItem_def getItem_def
        newEffects_def activations_def isActivation_def Let_def
        startEscort_def cleanup_escort_def startLocationTracking_escort_def escortEnv0_def
        initialEscortState_def escortStarts_def isEscortStart_def)

text \<open>
  C2, amended. Opening a panic screen again while the device holds the record of an
  active panic is idempotent. On the category-routed screen \<open>checkActivePanic\<close>
  resumes the recorded session: it takes the recorded session id and category, sets
  the tracking flag and the safe button, hides the category modal, restarts location
  tracking (timer and background updates, 30000 ms each) when a token exists and does
  nothing else, so that no activation is sent and the storage is left as it is;
  afterwards no category can be selected.
  In particular, after an activation that returned the id \<open>pid\<close>, opening the screen
  again yields the same \<open>pid\<close> and no further activation. On the PIN-locked screen
  \<open>checkPanicState\<close> goes to \<open>pin_entry\<close> with the tracking flag set, restarts
  the elapsed-time ticker and does nothing else: it sends no activation and leaves the
  storage, with the recorded \<open>panic_id\<close>, as it is.
\<close>

theorem recorded_panic_is_resumed:
  "(getItem w ''active_panic'' = Some (PanicJson d) \<longrightarrow>
      fst (checkActivePanic env (s, w))
        = s\<lparr>panicId := ap_id d, selectedCategory := Some (ap_category d),
             c_isTracking := True, showSafeButton := True, showCategoryModal := False,
             c_intervalRef := (if tokenHeld (c_authToken env) then Some (nextTimer w)
                               else c_intervalRef s)\<rparr>
    \<and> storage (snd (checkActivePanic env (s, w))) = storage w
    \<and> activations (newEffects w (snd (checkActivePanic env (s, w)))) = 0
    \<and> newEffects w (snd (checkActivePanic env (s, w)))
        = (if tokenHeld (c_authToken env)
           then (case c_intervalRef s of None \<Rightarrow> [] | Some t \<Rightarrow> [ClearInterval t])
                @ [SetInterval (nextTimer w) 30000,
                   StartLocationUpdates LOCATION_TASK 30000]
           else [])
    \<and> (tokenHeld (c_authToken env) \<longrightarrow>
         (nextTimer w, 30000) \<in> set (timers (snd (checkActivePanic env (s, w)))))
    \<and> selectCategory category' env' (checkActivePanic env (s, w))
        = checkActivePanic env (s, w))
 \<and> (category \<in> set SECURITY_EMERGENCIES \<and> canActivate env
      \<and> c_activateResult env = Returns pid \<longrightarrow>
      panicId (fst (handleCategorySelect category env (s, w))) = pid
    \<and> panicId (fst (checkActivePanic env' (initialCivilState,
                        snd (handleCategorySelect category env (s, w))))) = pid
    \<and> civilView (fst (checkActivePanic env' (initialCivilState,
                          snd (handleCategorySelect category env (s, w))))) = SafeButtonView
    \<and> activations
        (newEffects (snd (handleCategorySelect category env (s, w)))
           (snd (checkActivePanic env' (initialCivilState,
                   snd (handleCategorySelect category env (s, w)))))) = 0)
 \<and> (getItem lw ''panic_active'' = Some (Text ''true'') \<longrightarrow>
      fst (checkPanicState lenv (ls, lw))
        = ls\<lparr>isTracking := True, screen := pin_entry, elapsedRef := Some (nextTimer lw)\<rparr>
    \<and> storage (snd (checkPanicState lenv (ls, lw))) = storage lw
    \<and> activations (newEffects lw (snd (checkPanicState lenv (ls, lw)))) = 0
    \<and> newEffects lw (snd (checkPanicState lenv (ls, lw)))
        = (case elapsedRef ls of None \<Rightarrow> [] | Some t \<Rightarrow> [ClearInterval t])
          @ [SetInterval (nextTimer lw) 1000])"
  (is "(?stored \<longrightarrow> ?resumed) \<and> (?first \<longrightarrow> ?second) \<and> (?believed \<longrightarrow> ?locked)")
proof -
  have a: "?stored \<longrightarrow> ?resumed"
  proof
    assume st: ?stored
    obtain s' w' where r: "checkActivePanic env (s, w) = (s', w')"
      by (cases "checkActivePanic env (s, w)")
    with checkActivePanic_resumes(1) [OF st, of env s]
    have "c_isTracking s'" and "showSafeButton s'" by simp_all
    then have hidden: "selectCategory category' env' (checkActivePanic env (s, w))
        = checkActivePanic env (s, w)"
      unfolding r by (rule selectCategory_hidden)
    show ?resumed
      using checkActivePanic_resumes [OF st, of env s] hidden by blast
  qed
  have b: "?first \<longrightarrow> ?second"
  proof
    assume h: ?first
    then have sel: "handleCategorySelect category env (s, w)
        = activatePanicMode_civil category env
            (s\<lparr>selectedCategory := Some category, showCategoryModal := False\<rparr>, w)"
      by (auto simp: handleCategorySelect_def Let_def SECURITY_EMERGENCIES_def)
    from h have can: "canActivate env" and res: "c_activateResult env = Returns pid"
      by blast+
    note stored = activatePanicMode_civil_session(2) [OF can res]
    show ?second
      unfolding sel
      by (simp add: activatePanicMode_civil_session(1) [OF can res]
            checkActivePanic_resumes(1,3) [OF stored] civilView_def initialCivilState_def)
  qed
  have c: "?believed \<longrightarrow> ?locked"
    using checkPanicState_believed [of lw lenv ls] by blast
  from a b c show ?thesis by blast
qed

theorem recorded_panic_is_resumed_witness:
  "getItem worldPanic ''active_panic'' = Some (PanicJson panicRecord)
   \<and> fst (checkActivePanic civilEnv0 (initialCivilState, worldPanic))
       = \<lparr>c_isTracking = True, panicId = Some ''panic-1'', showCategoryModal = False,
          selectedCategory = Some ''robbery'', showSafeButton = True,
          showEmergencyContacts = None, c_intervalRef = Some 1\<rparr>
   \<and> activations (newEffects worldPanic
                     (snd (checkActivePanic civilEnv0 (initialCivilState, worldPanic)))) = 0
   \<and> newEffects worldPanic
        (snd (checkActivePanic civilEnv0 (initialCivilState, worldPanic)))
       = [SetInterval 1 30000, StartLocationUpdates ''background-location-panic'' 30000]
   \<and> selectCategory ''robbery'' civilEnv0
        (checkActivePanic civilEnv0 (initialCivilState, worldPanic))
       = checkActivePanic civilEnv0 (initialCivilState, worldPanic)
   \<and> panicId (fst (checkActivePanic civilEnv0 (initialCivilState,
                       snd (handleCategorySelect ''robbery'' civilEnv0
                              (initialCivilState, world0))))) = Some ''panic-1''
   \<and> activations
       (newEffects (snd (handleCategorySelect ''robbery'' civilEnv0 (initialCivilState, world0)))
          (snd (checkActivePanic civilEnv0 (initialCivilState,
                  snd (handleCategorySelect ''robbery'' civilEnv0
                         (initialCivilState, world0)))))) = 0
   \<and> getItem world1 ''panic_active'' = Some (Text ''true'')
   \<and> screen (fst (checkPanicState lockEnv0 (initialLockState, world1))) = pin_entry
   \<and> activations (newEffects world1 (snd (checkPanicState lockEnv0 (initialLockState, world1))))
       = 0"
proof -
  have stored: "getItem worldPanic ''active_panic'' = Some (PanicJson panicRecord)"
    by (simp add: getItem_def worldPanic_def world0_def)
  have believed: "getItem world1 ''panic_active'' = Some (Text ''true'')"
    by (simp add: getItem_def world1_def world0_def)
  have res: "c_activateResult civilEnv0 = Returns (Some ''panic-1'')"
    by (simp add: civilEnv0_def)
  have tok: "tokenHeld (c_authToken civilEnv0)"
    by (simp add: tokenHeld_def civilEnv0_def truthy_def)
  have nt: "nextTimer worldPanic = 1"
    by (simp add: worldPanic_def world0_def)
  from recorded_panic_is_resumed
         [where w = worldPanic and d = panicRecord and env = civilEnv0
            and s = initialCivilState and category' = "''robbery''" and env' = civilEnv0
            and category = "''robbery''" and pid = "Some ''panic-1''"
            and lw = world1 and lenv = lockEnv0 and ls = initialLockState]
       stored
  have first: "fst (checkActivePanic civilEnv0 (initialCivilState, worldPanic))
       = initialCivilState\<lparr>panicId := ap_id panicRecord,
           selectedCategory := Some (ap_category panicRecord),
           c_isTracking := True, showSafeButton := True, showCategoryModal := False,
           c_intervalRef := (if tokenHeld (c_authToken civilEnv0)
                             then Some (nextTimer worldPanic)
                             else c_intervalRef initialCivilState)\<rparr>"
    and quiet: "activations (newEffects worldPanic
                  (snd (checkActivePanic civilEnv0 (initialCivilState, worldPanic)))) = 0"
    and tracking: "newEffects worldPanic
                  (snd (checkActivePanic civilEnv0 (initialCivilState, worldPanic)))
                  = (if tokenHeld (c_authToken civilEnv0)
                     then (case c_intervalRef initialCivilState of
                             None \<Rightarrow> [] | Some t \<Rightarrow> [ClearInterval t])
                          @ [SetInterval (nextTimer worldPanic) 30000,
                             StartLocationUpdates LOCATION_TASK 30000]
                     else [])"
    and hidden: "selectCategory ''robbery'' civilEnv0
        (checkActivePanic civilEnv0 (initialCivilState, worldPanic))
       = checkActivePanic civilEnv0 (initialCivilState, worldPanic)"
    by blast+
  from recorded_panic_is_resumed
         [where env = civilEnv0 and s = initialCivilState and w = world0
            and env' = civilEnv0 and category = "''robbery''" and pid = "Some ''panic-1''"]
       robbery_is_security canActivate_civilEnv0 res
  have again: "panicId (fst (checkActivePanic civilEnv0 (initialCivilState,
                       snd (handleCategorySelect ''robbery'' civilEnv0
                              (initialCivilState, world0))))) = Some ''panic-1''"
    and once: "activations
       (newEffects (snd (handleCategorySelect ''robbery'' civilEnv0 (initialCivilState, world0)))
          (snd (checkActivePanic civilEnv0 (initialCivilState,
                  snd (handleCategorySelect ''robbery'' civilEnv0
                         (initialCivilState, world0)))))) = 0"
    by blast+
  from recorded_panic_is_resumed [where lw = world1 and lenv = lockEnv0 and ls = initialLockState]
       believed
  have "fst (checkPanicState lockEnv0 (initialLockState, world1))
        = initialLockState\<lparr>isTracking := True, screen := pin_entry,
                             elapsedRef := Some (nextTimer world1)\<rparr>"
    and silent: "activations (newEffects world1
                   (snd (checkPanicState lockEnv0 (initialLockState, world1)))) = 0"
    by blast+
  then have locked: "screen (fst (checkPanicState lockEnv0 (initialLockState, world1))) = pin_entry"
    by simp
  from first tok nt
  have state: "fst (checkActivePanic civilEnv0 (initialCivilState, worldPanic))
       = \<lparr>c_isTracking = True, panicId = Some ''panic-1'', showCategoryModal = False,
          selectedCategory = Some ''robbery'', showSafeButton = True,
          showEmergencyContacts = None, c_intervalRef = Some 1\<rparr>"
    by (simp add: initialCivilState_def panicRecord_def)
  from tracking tok nt
  have effects: "newEffects worldPanic
        (snd (checkActivePanic civilEnv0 (initialCivilState, worldPanic)))
       = [SetInterval 1 30000, StartLocationUpdates ''background-location-panic'' 30000]"
    by (simp add: initialCivilState_def LOCATION_TASK_def)
  from stored state quiet effects hidden again once believed locked silent
  show ?thesis by simp
qed

section \<open>Session controls on re-entry\<close>

lemma resolvePending_active:
  assumes "screen (fst (resolvePending env (s, w))) = active"
  shows "screen s = active"
proof (cases "pending s")
  case Nil
  with assms show ?thesis by (simp add: resolvePending_def)
next
  case (Cons k ks)
  with assms show ?thesis
    by (cases k) (auto simp: resolvePending_def split: if_splits)
qed

lemma active_only_by_pin:
  assumes "screen s = pin_entry" and "screen (fst (step env ev (s, w))) = active"
  shows "\<exists>key p. ev = PressKey key \<and> enteredPinAfter (pinDigits s) key = Some p
                  \<and> length p = 4 \<and> p = expectedPin w"
proof (cases ev)
  case (PressKey key)
  with assms have "screen (fst (pressKey key env (s, w))) = active"
    by (auto simp: step_def split: if_splits)
  with assms(1) PressKey show ?thesis using pressKey_active by blast
next
  case (AppStateChanged nextState)
  with assms show ?thesis
    by (auto simp: step_def onAppStateChange_def Let_def split: if_splits)
qed (use assms in \<open>auto simp: step_def onHardwareBack_def\<close>)

text \<open>
  C5 fails in the code. The category-routed panic screen, opened again while the device
  holds the record of an active panic, renders the screen with the \<open>I'm Safe Now\<close>
  button at once, and that button's handler ends the session: no PIN is asked for
  anywhere on this screen. On the PIN-locked screen the listener that reacts to the
  foreground only issues the read of \<open>panic_active\<close>: when it returns, the \<open>active\<close>
  screen with its stop control is still shown, and \<open>pin_entry\<close> appears only once
  the callback of the read has run.
\<close>

theorem session_controls_without_pin:
  "civilView (fst (checkActivePanic civilEnv0 (initialCivilState, worldPanic))) = SafeButtonView
   \<and> newEffects (snd (checkActivePanic civilEnv0 (initialCivilState, worldPanic)))
        (snd (markSafe_onPress civilEnv0
                (checkActivePanic civilEnv0 (initialCivilState, worldPanic))))
       = [ClearInterval 1, StopLocationUpdates ''background-location-panic'',
          Post ''/api/panic/deactivate'' EmptyBody,
          Alert ''You are Safe'' [RouterReplaceAction ''/civil/home'']]
   \<and> getItem (snd (markSafe_onPress civilEnv0
                      (checkActivePanic civilEnv0 (initialCivilState, worldPanic))))
         ''active_panic'' = None
   \<and> getItem world1 ''panic_active'' = Some (Text ''true'')
   \<and> screen (fst (step lockEnv0 (AppStateChanged app_active) (activeInBackground, world1)))
       = active
   \<and> enabled (screen (fst (step lockEnv0 (AppStateChanged app_active)
                               (activeInBackground, world1)))) ChooseStop
   \<and> pending (fst (step lockEnv0 (AppStateChanged app_active) (activeInBackground, world1)))
       = [ShowPin (Some (Text ''true''))]
   \<and> screen (fst (resolvePending lockEnv0
                     (step lockEnv0 (AppStateChanged app_active) (activeInBackground, world1))))
       = pin_entry"
  by (simp add: checkActivePanic_def civilView_def markSafe_onPress_def
        startLocationTracking_civil_def LOCATION_TASK_def civilEnv0_def worldPanic_def
        world0_def world1_def initialCivilState_def panicRecord_def truthy_def
        setInterval_def clearRef_def clearInterval_def emit_def removeItem_def getItem_def
        newEffects_def Let_def step_def onAppStateChange_def resolvePending_def
        activeInBackground_def initialLockState_def)

section \<open>Deactivation\<close>

lemma cancelledBefore_iff:
  "cancelledBefore t title tr \<longleftrightarrow>
     (\<forall>j < length tr. isAlertTitled title (tr ! j) \<longrightarrow> (\<exists>i < j. tr ! i = ClearInterval t))"
proof (induction tr)
  case Nil
  show ?case by simp
next
  case (Cons e es)
  show ?case
  proof (cases "e = ClearInterval t")
    case True
    have "\<exists>i < j. (e # es) ! i = ClearInterval t" if "isAlertTitled title ((e # es) ! j)" for j
    proof (cases j)
      case 0
      with that True show ?thesis by (simp add: isAlertTitled_def)
    next
      case (Suc k)
      with True show ?thesis by auto
    qed
    with True show ?thesis by simp
  next
    case notClear: False
    show ?thesis
    proof (cases "isAlertTitled title e")
      case True
      with notClear have "\<not> cancelledBefore t title (e # es)" by simp
      moreover from True
      have "\<not> (\<forall>j < length (e # es). isAlertTitled title ((e # es) ! j)
                  \<longrightarrow> (\<exists>i < j. (e # es) ! i = ClearInterval t))"
        by (auto intro: exI [of _ 0])
      ultimately show ?thesis by blast
    next
      case False
      have "(\<forall>j < length (e # es). isAlertTitled title ((e # es) ! j)
                  \<longrightarrow> (\<exists>i < j. (e # es) ! i = ClearInterval t))
            \<longleftrightarrow> (\<forall>j < length es. isAlertTitled title (es ! j)
                  \<longrightarrow> (\<exists>i < j. es ! i = ClearInterval t))"
        (is "?l \<longleftrightarrow> ?r")
      proof
        assume l: ?l
        show ?r
        proof (intro allI impI)
          fix j assume "j < length es" "isAlertTitled title (es ! j)"
          with l [rule_format, of "Suc j"] obtain i where "i < Suc j" "(e # es) ! i = ClearInterval t"
            by auto
          with notClear show "\<exists>i < j. es ! i = ClearInterval t"
            by (cases i) auto
        qed
      next
        assume r: ?r
        show ?l
        proof (intro allI impI)
          fix j assume j: "j < length (e # es)" "isAlertTitled title ((e # es) ! j)"
          with False obtain k where k: "j = Suc k" by (cases j) auto
          with j r [rule_format, of k] obtain i where "i < k" "es ! i = ClearInterval t"
            by auto
          with k show "\<exists>i < j. (e # es) ! i = ClearInterval t"
            by (auto intro: exI [of _ "Suc i"])
        qed
      qed
      with notClear False Cons.IH show ?thesis by simp
    qed
  qed
qed

lemma cancelledBefore_first: "cancelledBefore t title (ClearInterval t # rest)"
  by simp

lemma deactivatePanicMode_run:
  assumes "intervalRef s = Some t"
  shows "\<exists>rest. newEffects w (snd (deactivatePanicMode env (s, w))) = ClearInterval t # rest"
    and "t \<notin> fst ` set (timers (snd (deactivatePanicMode env (s, w))))"
    and "(\<exists>acts. Alert ''Safe'' acts \<in> set (newEffects w (snd (deactivatePanicMode env (s, w)))))
           \<longleftrightarrow> completes (authToken env) (deactivateResult env)"
  using assms
  by (auto simp: deactivatePanicMode_def Let_def clearRef_def clearInterval_def emit_def
        removeItem_def newEffects_def completes_def returned_def
      split: outcome.splits option.splits)

lemma markSafe_onPress_run:
  assumes "c_intervalRef s = Some t"
  shows "returned (c_authToken env) \<Longrightarrow>
           \<exists>rest. newEffects w (snd (markSafe_onPress env (s, w))) = ClearInterval t # rest"
    and "returned (c_authToken env) \<Longrightarrow>
           t \<notin> fst ` set (timers (snd (markSafe_onPress env (s, w))))"
    and "\<not> returned (c_authToken env) \<Longrightarrow>
           newEffects w (snd (markSafe_onPress env (s, w))) = [Alert ''Error'' []]"
    and "(\<exists>acts. Alert ''You are Safe'' acts
                  \<in> set (newEffects w (snd (markSafe_onPress env (s, w)))))
           \<longleftrightarrow> completes (c_authToken env) (c_deactivateResult env)"
  using assms
  by (auto simp: markSafe_onPress_def Let_def clearRef_def clearInterval_def emit_def
        removeItem_def newEffects_def completes_def returned_def
      split: outcome.splits option.splits)

lemma stopEscort_onPress_run:
  assumes "e_intervalRef s = Some t"
  shows "\<exists>rest. newEffects w (snd (stopEscort_onPress env (s, w))) = ClearInterval t # rest"
    and "t \<notin> fst ` set (timers (snd (stopEscort_onPress env (s, w))))"
    and "(\<exists>acts. Alert ''Success'' acts
                  \<in> set (newEffects w (snd (stopEscort_onPress env (s, w)))))
           \<longleftrightarrow> completes (e_authToken env) (e_stopResult env)"
  using assms
  by (auto simp: stopEscort_onPress_def Let_def clearRef_def clearInterval_def emit_def
        newEffects_def completes_def returned_def
      split: outcome.splits option.splits)

text \<open>
  C6. Every deactivation handler clears the foreground sampling timer held in its
  \<open>intervalRef\<close> before it shows its confirmation. On the PIN-locked screen and on
  the escort screen \<open>clearInterval\<close> of that timer is the first effect of the handler;
  on the category-routed screen it is the first effect once the token has been read
  (when that read throws, the handler shows the error alert and nothing else). In each
  handler the confirmation alert (\<open>Safe\<close>, \<open>You are Safe\<close>, \<open>Success\<close>) is shown
  exactly when the token is read and the deactivation request, sent only with a token,
  is answered; it never comes before the \<open>clearInterval\<close>, and when the timer has
  been cleared it is no longer registered at the end.
\<close>

theorem timer_cleared_before_confirmation:
  "(intervalRef s = Some t \<longrightarrow>
      (\<exists>rest. newEffects w (snd (deactivatePanicMode env (s, w))) = ClearInterval t # rest)
    \<and> cancelledBefore t ''Safe'' (newEffects w (snd (deactivatePanicMode env (s, w))))
    \<and> t \<notin> fst ` set (timers (snd (deactivatePanicMode env (s, w))))
    \<and> ((\<exists>acts. Alert ''Safe'' acts
                 \<in> set (newEffects w (snd (deactivatePanicMode env (s, w)))))
         \<longleftrightarrow> completes (authToken env) (deactivateResult env)))
 \<and> (c_intervalRef cs = Some ct \<longrightarrow>
      (if returned (c_authToken cenv)
       then (\<exists>rest. newEffects cw (snd (markSafe_onPress cenv (cs, cw)))
                       = ClearInterval ct # rest)
            \<and> ct \<notin> fst ` set (timers (snd (markSafe_onPress cenv (cs, cw))))
       else newEffects cw (snd (markSafe_onPress cenv (cs, cw))) = [Alert ''Error'' []])
    \<and> cancelledBefore ct ''You are Safe''
         (newEffects cw (snd (markSafe_onPress cenv (cs, cw))))
    \<and> ((\<exists>acts. Alert ''You are Safe'' acts
                 \<in> set (newEffects cw (snd (markSafe_onPress cenv (cs, cw)))))
         \<longleftrightarrow> completes (c_authToken cenv) (c_deactivateResult cenv)))
 \<and> (e_intervalRef es = Some et \<longrightarrow>
      (\<exists>rest. newEffects ew (snd (stopEscort_onPress eenv (es, ew))) = ClearInterval et # rest)
    \<and> cancelledBefore et ''Success'' (newEffects ew (snd (stopEscort_onPress eenv (es, ew))))
    \<and> et \<notin> fst ` set (timers (snd (stopEscort_onPress eenv (es, ew))))
    \<and> ((\<exists>acts. Alert ''Success'' acts
                 \<in> set (newEffects ew (snd (stopEscort_onPress eenv (es, ew)))))
         \<longleftrightarrow> completes (e_authToken eenv) (e_stopResult eenv)))"
  (is "(?lref \<longrightarrow> ?lock) \<and> (?cref \<longrightarrow> ?civil) \<and> (?eref \<longrightarrow> ?escort)")
proof -
  have lock: "?lref \<longrightarrow> ?lock"
  proof
    assume r: ?lref
    from deactivatePanicMode_run(1) [OF r, where w = w and env = env]
    have "cancelledBefore t ''Safe'' (newEffects w (snd (deactivatePanicMode env (s, w))))"
      by (auto simp: cancelledBefore_first)
    with deactivatePanicMode_run [OF r, where w = w and env = env] show ?lock by blast
  qed
  have civil: "?cref \<longrightarrow> ?civil"
  proof
    assume r: ?cref
    have "cancelledBefore ct ''You are Safe''
            (newEffects cw (snd (markSafe_onPress cenv (cs, cw))))"
    proof (cases "returned (c_authToken cenv)")
      case True
      from markSafe_onPress_run(1) [OF r True, where w = cw] show ?thesis
        by (auto simp: cancelledBefore_first)
    next
      case False
      from markSafe_onPress_run(3) [OF r False, where w = cw] show ?thesis
        by (simp add: isAlertTitled_def)
    qed
    with markSafe_onPress_run [OF r, where env = cenv and w = cw] show ?civil by auto
  qed
  have escort: "?eref \<longrightarrow> ?escort"
  proof
    assume r: ?eref
    from stopEscort_onPress_run(1) [OF r, where w = ew and env = eenv]
    have "cancelledBefore et ''Success''
            (newEffects ew (snd (stopEscort_onPress eenv (es, ew))))"
      by (auto simp: cancelledBefore_first)
    with stopEscort_onPress_run [OF r, where w = ew and env = eenv] show ?escort by blast
  qed
  from lock civil escort show ?thesis by blast
qed

theorem timer_cleared_before_confirmation_witness:
  "intervalRef (fst (checkPanicState lockEnv0 (initialLockState, world0))) = Some 2
   \<and> (\<exists>rest. newEffects (snd (checkPanicState lockEnv0 (initialLockState, world0)))
                (snd (deactivatePanicMode lockEnv0
                        (checkPanicState lockEnv0 (initialLockState, world0))))
              = ClearInterval 2 # rest)
   \<and> (\<exists>acts. Alert ''Safe'' acts
         \<in> set (newEffects (snd (checkPanicState lockEnv0 (initialLockState, world0)))
                  (snd (deactivatePanicMode lockEnv0
                          (checkPanicState lockEnv0 (initialLockState, world0))))))
   \<and> 2 \<notin> fst ` set (timers (snd (deactivatePanicMode lockEnv0
                                     (checkPanicState lockEnv0 (initialLockState, world0)))))
   \<and> c_intervalRef (fst (handleCategorySelect ''robbery'' civilEnv0 (initialCivilState, world0)))
       = Some 1
   \<and> (\<exists>rest. newEffects
                (snd (handleCategorySelect ''robbery'' civilEnv0 (initialCivilState, world0)))
                (snd (markSafe_onPress civilEnv0
                        (handleCategorySelect ''robbery'' civilEnv0 (initialCivilState, world0))))
              = ClearInterval 1 # rest)
   \<and> (\<exists>acts. Alert ''You are Safe'' acts
         \<in> set (newEffects
                  (snd (handleCategorySelect ''robbery'' civilEnv0 (initialCivilState, world0)))
                  (snd (markSafe_onPress civilEnv0
                          (handleCategorySelect ''robbery'' civilEnv0
                             (initialCivilState, world0))))))
   \<and> e_intervalRef (fst (startEscort escortEnv0 (initialEscortState, world0))) = Some 1
   \<and> (\<exists>rest. newEffects (snd (startEscort escortEnv0 (initialEscortState, world0)))
                (snd (stopEscort_onPress escortEnv0
                        (startEscort escortEnv0 (initialEscortState, world0))))
              = ClearInterval 1 # rest)
   \<and> (\<exists>acts. Alert ''Success'' acts
         \<in> set (newEffects (snd (startEscort escortEnv0 (initialEscortState, world0)))
                  (snd (stopEscort_onPress escortEnv0
                          (startEscort escortEnv0 (initialEscortState, world0))))))"
proof -
  have l: "intervalRef (fst (checkPanicState lockEnv0 (initialLockState, world0))) = Some 2"
    by (simp add: checkPanicState_def activatePanicMode_lock_def lockEnv0_def world0_def
          initialLockState_def getItem_def truthy_def Let_def startElapsedTimer_def
          startLocationTracking_lock_def setInterval_def clearRef_def emit_def setItem_def)
  have c: "c_intervalRef (fst (handleCategorySelect ''robbery'' civilEnv0
                                 (initialCivilState, world0))) = Some 1"
    by (simp add: handleCategorySelect_def SECURITY_EMERGENCIES_def activatePanicMode_civil_def
          civilEnv0_def world0_def initialCivilState_def truthy_def Let_def
          startLocationTracking_civil_def setInterval_def clearRef_def emit_def setItem_def)
  have e: "e_intervalRef (fst (startEscort escortEnv0 (initialEscortState, world0))) = Some 1"
    by (simp add: startEscort_def escortEnv0_def world0_def initialEscortState_def truthy_def
          Let_def startLocationTracking_escort_def setInterval_def emit_def)
  have ok: "completes (authToken lockEnv0) (deactivateResult lockEnv0)"
    "completes (c_authToken civilEnv0) (c_deactivateResult civilEnv0)"
    "completes (e_authToken escortEnv0) (e_stopResult escortEnv0)"
    "returned (c_authToken civilEnv0)"
    by (simp_all add: completes_def returned_def lockEnv0_def civilEnv0_def escortEnv0_def)
  from timer_cleared_before_confirmation
         [where s = "fst (checkPanicState lockEnv0 (initialLockState, world0))"
            and w = "snd (checkPanicState lockEnv0 (initialLockState, world0))"
            and t = 2 and env = lockEnv0
            and cs = "fst (handleCategorySelect ''robbery'' civilEnv0 (initialCivilState, world0))"
            and cw = "snd (handleCategorySelect ''robbery'' civilEnv0 (initialCivilState, world0))"
            and ct = 1 and cenv = civilEnv0
            and es = "fst (startEscort escortEnv0 (initialEscortState, world0))"
            and ew = "snd (startEscort escortEnv0 (initialEscortState, world0))"
            and et = 1 and eenv = escortEnv0]
  show ?thesis using l c e ok by simp
qed

section \<open>The sampling cadence\<close>

lemma samplingPeriods_clearRef:
  "\<exists>es. trace (clearRef r w) = trace w @ es \<and> samplingPeriods es = []
        \<and> nextTimer (clearRef r w) = nextTimer w"
  by (cases r)
     (auto simp: clearRef_def clearInterval_def emit_def samplingPeriods_def map_filter_simps)

lemma samplingPeriods_append:
  "samplingPeriods (xs @ ys) = samplingPeriods xs @ samplingPeriods ys"
  by (simp add: samplingPeriods_def map_filter_def)

text \<open>
  C9, as stated, fails: the tracking loops take the auth token as their only argument,
  and with different tokens and different states the timer is started with the same
  period of 30000 ms.
\<close>

theorem sampling_period_ignores_input:
  "samplingPeriods
     (newEffects world0 (snd (startLocationTracking_escort ''token-a'' (escort0, world0))))
     = [30000]
   \<and> samplingPeriods
       (newEffects world1
          (snd (startLocationTracking_escort ''token-b''
                  (escort0\<lparr>sessionId := Some ''escort-2''\<rparr>, world1))))
     = [30000]
   \<and> samplingPeriods
       (newEffects world0
          (snd (startLocationTracking_civil ''token-a'' (initialCivilState, world0))))
     = [30000, 30000]
   \<and> samplingPeriods
       (newEffects world1
          (snd (startLocationTracking_civil ''token-b''
                  (initialCivilState\<lparr>panicId := Some ''panic-2''\<rparr>, world1))))
     = [30000, 30000]"
  by (simp add: startLocationTracking_escort_def startLocationTracking_civil_def
        setInterval_def clearRef_def emit_def newEffects_def samplingPeriods_def
        map_filter_simps world0_def world1_def initialCivilState_def)

text \<open>
  C9, amended. The sampling cadence is a fixed constant of the tracking loops and is not
  configurable: for every token, state and world, \<open>startLocationTracking\<close> of the
  escort screen starts its timer with a period of 30000 ms, and that of either panic
  screen starts its timer and the background location updates with 30000 ms each.
\<close>

theorem sampling_period_fixed:
  "samplingPeriods (newEffects w (snd (startLocationTracking_escort token (es, w)))) = [30000]
   \<and> samplingPeriods (newEffects w (snd (startLocationTracking_civil token (cs, w))))
       = [30000, 30000]
   \<and> samplingPeriods (newEffects w (snd (startLocationTracking_lock token (ls, w))))
       = [30000, 30000]"
proof -
  have escort:
    "samplingPeriods (newEffects w (snd (startLocationTracking_escort token (es, w))))
       = [30000]"
    by (simp add: startLocationTracking_escort_def setInterval_def emit_def newEffects_def
          samplingPeriods_def map_filter_simps)
  obtain xs where xs: "trace (clearRef (c_intervalRef cs) w) = trace w @ xs"
      "samplingPeriods xs = []"
    using samplingPeriods_clearRef by blast
  have civil:
    "samplingPeriods (newEffects w (snd (startLocationTracking_civil token (cs, w))))
       = [30000, 30000]"
    using xs
    by (simp add: startLocationTracking_civil_def setInterval_def emit_def newEffects_def
          samplingPeriods_append)
       (simp add: samplingPeriods_def map_filter_simps)
  obtain ys where ys: "trace (clearRef (intervalRef ls) w) = trace w @ ys"
      "samplingPeriods ys = []"
    using samplingPeriods_clearRef by blast
  have lock:
    "samplingPeriods (newEffects w (snd (startLocationTracking_lock token (ls, w))))
       = [30000, 30000]"
    using ys
    by (simp add: startLocationTracking_lock_def setInterval_def emit_def newEffects_def
          samplingPeriods_append)
       (simp add: samplingPeriods_def map_filter_simps)
  from escort civil lock show ?thesis by simp
qed

section \<open>The location history of the track screen\<close>

lemma mset_insertBy: "mset (insertBy compareFn a bs) = add_mset a (mset bs)"
  by (induction bs) auto

lemma mset_arraySort: "mset (arraySort compareFn xs) = mset xs"
  by (induction xs) (simp_all add: arraySort_def mset_insertBy)

lemma set_arraySort: "set (arraySort compareFn xs) = set xs"
  by (metis mset_arraySort set_mset_mset)

lemma set_insertBy: "set (insertBy compareFn a bs) = insert a (set bs)"
  by (metis mset_insertBy set_mset_add_mset_insert set_mset_mset)

lemma notEarlier_trans:
  "notEarlier getTime a b \<Longrightarrow> notEarlier getTime b c \<Longrightarrow> notEarlier getTime a c"
  by (auto simp: notEarlier_def split: option.splits)

lemma sorted_insertBy:
  assumes "getTime (le_timestamp a) \<noteq> None"
    and "\<forall>b \<in> set bs. getTime (le_timestamp b) \<noteq> None"
    and "sorted_wrt (notEarlier getTime) bs"
  shows "sorted_wrt (notEarlier getTime) (insertBy (compareEntries getTime) a bs)"
  using assms
proof (induction bs)
  case Nil
  then show ?case by simp
next
  case (Cons b bs)
  from Cons.prems obtain ta tb where ta: "getTime (le_timestamp a) = Some ta"
    and tb: "getTime (le_timestamp b) = Some tb"
    by auto
  show ?case
  proof (cases "sortsAfter (compareEntries getTime) a b")
    case True
    with ta tb have ba: "notEarlier getTime b a"
      by (simp add: sortsAfter_def compareEntries_def notEarlier_def)
    from Cons have "sorted_wrt (notEarlier getTime) (insertBy (compareEntries getTime) a bs)"
      by simp
    with True ba Cons.prems(3) show ?thesis
      by (auto simp: set_insertBy)
  next
    case False
    with ta tb have ab: "notEarlier getTime a b"
      by (simp add: sortsAfter_def compareEntries_def notEarlier_def)
    with Cons.prems(3) have "\<forall>c \<in> set bs. notEarlier getTime a c"
      by (auto intro: notEarlier_trans)
    with False ab Cons.prems(3) show ?thesis by simp
  qed
qed

lemma sorted_arraySort:
  assumes "datesValid getTime xs"
  shows "newestFirst getTime (arraySort (compareEntries getTime) xs)"
  using assms
proof (induction xs)
  case Nil
  show ?case by (simp add: arraySort_def newestFirst_def)
next
  case (Cons x xs)
  then have "sorted_wrt (notEarlier getTime) (arraySort (compareEntries getTime) xs)"
    by (simp add: datesValid_def newestFirst_def)
  moreover from Cons.prems have "getTime (le_timestamp x) \<noteq> None"
    and "\<forall>b \<in> set (arraySort (compareEntries getTime) xs). getTime (le_timestamp b) \<noteq> None"
    by (simp_all add: datesValid_def set_arraySort list_all_iff)
  ultimately have "sorted_wrt (notEarlier getTime)
      (insertBy (compareEntries getTime) x (arraySort (compareEntries getTime) xs))"
    by (simp add: sorted_insertBy)
  then show ?case by (simp add: arraySort_def newestFirst_def)
qed

lemma mergeHistory_Nil: "mergeHistory getTime prev [] = prev"
  by (simp add: mergeHistory_def)

lemma mergeHistory_mset:
  "mset (mergeHistory getTime prev incoming) = mset prev + mset (freshEntries prev incoming)"
proof (cases "freshEntries prev incoming = []")
  case True
  then show ?thesis
    by (simp add: mergeHistory_def freshEntries_def Let_def)
next
  case False
  then show ?thesis
    by (simp add: mergeHistory_def freshEntries_def Let_def mset_arraySort)
qed

lemma mergeHistory_set:
  "set (mergeHistory getTime prev incoming) = set prev \<union> set (freshEntries prev incoming)"
  by (metis mergeHistory_mset set_mset_mset set_mset_union)

lemma mergeHistory_timestamps:
  "le_timestamp ` set (mergeHistory getTime prev incoming)
     = le_timestamp ` set prev \<union> le_timestamp ` set incoming"
  unfolding mergeHistory_set by (auto simp: freshEntries_def)

lemma mergeHistory_valid:
  assumes "datesValid getTime prev" and "datesValid getTime incoming"
  shows "datesValid getTime (mergeHistory getTime prev incoming)"
  using assms
  by (auto simp: datesValid_def list_all_iff mergeHistory_set freshEntries_def)

lemma mergeHistory_sorted:
  assumes "newestFirst getTime prev" and "datesValid getTime prev"
    and "datesValid getTime incoming"
  shows "newestFirst getTime (mergeHistory getTime prev incoming)"
proof (cases "freshEntries prev incoming = []")
  case True
  with assms(1) show ?thesis
    by (simp add: mergeHistory_def freshEntries_def Let_def)
next
  case False
  from assms(2,3) have "datesValid getTime (prev @ freshEntries prev incoming)"
    by (auto simp: datesValid_def list_all_iff freshEntries_def)
  from sorted_arraySort [OF this] False show ?thesis
    by (simp add: mergeHistory_def freshEntries_def Let_def)
qed

lemma mergeHistory_distinct:
  assumes "distinct (map le_timestamp prev)" and "distinct (map le_timestamp incoming)"
  shows "distinct (map le_timestamp (mergeHistory getTime prev incoming))"
proof -
  have "distinct (map le_timestamp (freshEntries prev incoming))"
    using assms(2) by (simp add: freshEntries_def distinct_map_filter)
  then have "distinct (map le_timestamp (prev @ freshEntries prev incoming))"
    using assms(1) by (auto simp: freshEntries_def image_iff)
  moreover have "mset (map le_timestamp (mergeHistory getTime prev incoming))
      = mset (map le_timestamp (prev @ freshEntries prev incoming))"
    by (simp add: mergeHistory_mset)
  ultimately show ?thesis
    by (metis mset_eq_imp_distinct_iff)
qed

lemma loadTrackData_history:
  assumes "truthy tok"
  shows "locationHistory (fst (loadTrackData getTime uid (Returns tok) r (s, w)))
     = (if uid = [] then locationHistory s
        else mergeHistory getTime (locationHistory s) (entriesOf r))"
proof (cases r)
  case (Throws e)
  with assms show ?thesis
    by (simp add: loadTrackData_def Let_def mergeHistory_Nil)
next
  case (Returns h)
  with assms show ?thesis
    by (cases h) (simp_all add: loadTrackData_def Let_def mergeHistory_Nil)
qed

lemma loadAll_history:
  "locationHistory (fst (loadAll getTime uid rs (s, w)))
     = foldl (\<lambda>h r. if uid = [] then h else mergeHistory getTime h (entriesOf r))
         (locationHistory s) rs"
proof (induction rs arbitrary: s w)
  case Nil
  show ?case by simp
next
  case (Cons r rs)
  have tok: "truthy (Some ''token'')" by (simp add: truthy_def)
  obtain s' w' where step: "loadTrackData getTime uid (Returns (Some ''token'')) r (s, w) = (s', w')"
    by (cases "loadTrackData getTime uid (Returns (Some ''token'')) r (s, w)")
  with loadTrackData_history [OF tok, of getTime uid r s w] Cons.IH [of s' w']
  show ?case by simp
qed

lemma fold_sorted:
  assumes "newestFirst getTime h" and "datesValid getTime h"
    and "\<forall>r \<in> set rs. datesValid getTime (entriesOf r)"
  shows "newestFirst getTime
           (foldl (\<lambda>h r. if uid = [] then h else mergeHistory getTime h (entriesOf r)) h rs)"
  using assms
  by (induction rs arbitrary: h) (simp_all add: mergeHistory_sorted mergeHistory_valid)

lemma fold_timestamps:
  assumes "uid \<noteq> []"
  shows "le_timestamp ` set
           (foldl (\<lambda>h r. if uid = [] then h else mergeHistory getTime h (entriesOf r)) h rs)
         = le_timestamp ` set h \<union> le_timestamp ` set (concat (map entriesOf rs))"
  using assms
  by (induction rs arbitrary: h) (auto simp: mergeHistory_timestamps)

lemma fold_distinct:
  assumes "distinct (map le_timestamp h)"
    and "\<forall>r \<in> set rs. distinct (map le_timestamp (entriesOf r))"
  shows "distinct (map le_timestamp
           (foldl (\<lambda>h r. if uid = [] then h else mergeHistory getTime h (entriesOf r)) h rs))"
  using assms by (induction rs arbitrary: h) (simp_all add: mergeHistory_distinct)

text \<open>A timestamp that is no date makes the comparator \<open>NaN\<close> against every other
  entry: the merged list is left as it came and is not ordered.\<close>

lemma unparseable_timestamp_breaks_order:
  "mergeHistory sampleTime [] [p0, pBad, p30] = [p0, pBad, p30]
   \<and> \<not> newestFirst sampleTime (mergeHistory sampleTime [] [p0, pBad, p30])"
  by (simp add: mergeHistory_def arraySort_def sortsAfter_def compareEntries_def
        newestFirst_def notEarlier_def sampleTime_def p0_def p30_def pBad_def point_def
        Let_def)

text \<open>
  C3, as stated, fails: an out-of-order point is inserted and the list is re-sorted.
  Polling answers that carry the points captured at 0 s, then at 0 s and 30 s, then at
  0 s, 30 s and 15 s leave the history \<open>[30 s, 15 s, 0 s]\<close>, where appending in order
  and dropping the late point, as the specification words it, gives \<open>[0 s, 30 s]\<close>.
\<close>

theorem out_of_order_point_is_kept:
  "locationHistory
     (fst (loadAll sampleTime ''user-1''
             [Returns (Some [p0]), Returns (Some [p0, p30]), Returns (Some [p0, p30, p15])]
             (initialTrackState, world0)))
     = [p30, p15, p0]
   \<and> foldl (spec_ingestLocation sampleTime) [] [p0, p30, p15] = [p0, p30]"
  by (simp add: loadTrackData_def truthy_def Let_def mergeHistory_def arraySort_def
        sortsAfter_def compareEntries_def initialTrackState_def
        spec_ingestLocation_def sampleTime_def p0_def p15_def p30_def point_def)

text \<open>
  C3, amended. Each call of \<open>loadTrackData\<close> that receives entries keeps every
  stored entry as it is, drops the received entries whose exact timestamp is already
  stored, and inserts every other received entry, whatever its capture time: the new
  history holds exactly the stored entries and those fresh ones. It then sorts the
  whole list again, so that, as long as every received timestamp is a date, the
  history after any sequence of answers is ordered by capture time, newest first, with
  out-of-order entries at their place instead of dropped. The timestamps of the history
  are exactly those received, and they are pairwise distinct when those within each
  single answer are.
\<close>

theorem history_newest_first:
  "(uid \<noteq> [] \<and> truthy tok \<longrightarrow>
      mset (locationHistory (fst (loadTrackData getTime uid (Returns tok) r (s, w))))
        = mset (locationHistory s) + mset (freshEntries (locationHistory s) (entriesOf r)))
 \<and> ((\<forall>r \<in> set rs. datesValid getTime (entriesOf r)) \<longrightarrow>
      newestFirst getTime
        (locationHistory (fst (loadAll getTime uid rs (initialTrackState, w')))))
 \<and> (uid \<noteq> [] \<longrightarrow>
      le_timestamp ` set (locationHistory (fst (loadAll getTime uid rs (initialTrackState, w'))))
        = le_timestamp ` set (concat (map entriesOf rs)))
 \<and> ((\<forall>r \<in> set rs. distinct (map le_timestamp (entriesOf r))) \<longrightarrow>
      distinct (map le_timestamp
                  (locationHistory (fst (loadAll getTime uid rs (initialTrackState, w'))))))"
proof -
  have start: "locationHistory initialTrackState = []"
    by (simp add: initialTrackState_def)
  have kept: "uid \<noteq> [] \<and> truthy tok \<longrightarrow>
      mset (locationHistory (fst (loadTrackData getTime uid (Returns tok) r (s, w))))
        = mset (locationHistory s) + mset (freshEntries (locationHistory s) (entriesOf r))"
    by (simp add: loadTrackData_history mergeHistory_mset)
  have ordered: "(\<forall>r \<in> set rs. datesValid getTime (entriesOf r)) \<longrightarrow>
      newestFirst getTime
        (locationHistory (fst (loadAll getTime uid rs (initialTrackState, w'))))"
  proof
    assume v: "\<forall>r \<in> set rs. datesValid getTime (entriesOf r)"
    have "newestFirst getTime []" "datesValid getTime []"
      by (simp_all add: newestFirst_def datesValid_def)
    from fold_sorted [OF this v]
    show "newestFirst getTime
        (locationHistory (fst (loadAll getTime uid rs (initialTrackState, w'))))"
      unfolding loadAll_history start .
  qed
  have received: "uid \<noteq> [] \<longrightarrow>
      le_timestamp ` set (locationHistory (fst (loadAll getTime uid rs (initialTrackState, w'))))
        = le_timestamp ` set (concat (map entriesOf rs))"
  proof
    assume uid: "uid \<noteq> []"
    show "le_timestamp ` set (locationHistory (fst (loadAll getTime uid rs (initialTrackState, w'))))
        = le_timestamp ` set (concat (map entriesOf rs))"
      unfolding loadAll_history start fold_timestamps [OF uid] by simp
  qed
  have dedup: "(\<forall>r \<in> set rs. distinct (map le_timestamp (entriesOf r))) \<longrightarrow>
      distinct (map le_timestamp
                  (locationHistory (fst (loadAll getTime uid rs (initialTrackState, w')))))"
  proof
    assume d: "\<forall>r \<in> set rs. distinct (map le_timestamp (entriesOf r))"
    have "distinct (map le_timestamp ([] :: LocationEntry list))" by simp
    from fold_distinct [OF this d]
    show "distinct (map le_timestamp
                  (locationHistory (fst (loadAll getTime uid rs (initialTrackState, w')))))"
      unfolding loadAll_history start .
  qed
  from kept ordered received dedup show ?thesis by blast
qed

theorem history_newest_first_witness:
  "mset (locationHistory
           (fst (loadTrackData sampleTime ''user-1'' (Returns (Some ''token''))
                   (Returns (Some [p0\<lparr>le_source := Some ''gps''\<rparr>, p15]))
                   (initialTrackState\<lparr>locationHistory := [p30, p0]\<rparr>, world0))))
     = {#p30, p0, p15#}
   \<and> newestFirst sampleTime
        (locationHistory
           (fst (loadAll sampleTime ''user-1'' [Returns (Some [p0, p30]), Returns (Some [p15])]
                   (initialTrackState, world0))))
   \<and> le_timestamp ` set
        (locationHistory
           (fst (loadAll sampleTime ''user-1'' [Returns (Some [p0, p30]), Returns (Some [p15])]
                   (initialTrackState, world0))))
       = {le_timestamp p0, le_timestamp p15, le_timestamp p30}
   \<and> distinct (map le_timestamp
        (locationHistory
           (fst (loadAll sampleTime ''user-1'' [Returns (Some [p0, p30]), Returns (Some [p15])]
                   (initialTrackState, world0)))))"
proof -
  have uid: "''user-1'' \<noteq> []" and tok: "truthy (Some ''token'')"
    by (simp_all add: truthy_def)
  have v: "\<forall>r \<in> set [Returns (Some [p0, p30]), Returns (Some [p15])].
             datesValid sampleTime (entriesOf r)"
    by (simp add: datesValid_def sampleTime_def p0_def p15_def p30_def point_def)
  have d: "\<forall>r \<in> set [Returns (Some [p0, p30]), Returns (Some [p15])].
             distinct (map le_timestamp (entriesOf r))"
    by (simp add: p0_def p15_def p30_def point_def)
  have e: "le_timestamp ` set (concat (map entriesOf [Returns (Some [p0, p30]), Returns (Some [p15])]))
             = {le_timestamp p0, le_timestamp p15, le_timestamp p30}"
    by auto
  have fresh: "freshEntries (locationHistory (initialTrackState\<lparr>locationHistory := [p30, p0]\<rparr>))
                 (entriesOf (Returns (Some [p0\<lparr>le_source := Some ''gps''\<rparr>, p15]))) = [p15]"
    by (simp add: freshEntries_def p0_def p15_def p30_def point_def)
  from history_newest_first
         [where getTime = sampleTime and uid = "''user-1''" and tok = "Some ''token''"
            and r = "Returns (Some [p0\<lparr>le_source := Some ''gps''\<rparr>, p15])"
            and s = "initialTrackState\<lparr>locationHistory := [p30, p0]\<rparr>" and w = world0
            and rs = "[Returns (Some [p0, p30]), Returns (Some [p15])]" and w' = world0]
  show ?thesis using uid tok v d e fresh by simp
qed

section \<open>Report submission\<close>

text \<open>
  C7 fails on the audio screen and on the earlier video screen. With no position held
  and no fix to be had, both send the report with the built-in position
  \<open>(9.0820, 8.6753)\<close>, where the later video screen, under the same conditions, stops
  with the alert \<open>Location Required\<close> and sends nothing.
\<close>

theorem report_sent_with_default_position:
  "newEffects world0 (snd (submitReport_audio reportEnvNoFix (audio0, world0)))
     = [Post ''/api/report/create''
          (AudioBody ''Audio security report'' False ''file:///report.m4a'' 9.0820 8.6753 12),
        Alert ''Success!'' [RouterBackAction]]
   \<and> newEffects world0 (snd (submitReport_video_old reportEnvNoFix (video0, world0)))
     = [Post ''/api/report/upload-video''
          (VideoBody ''AAAA'' ''Live security report'' False 9.0820 8.6753 12 None),
        Alert ''Success!'' [RouterBackAction]]
   \<and> newEffects world0 (snd (submitReport_video reportEnvNoFix (video0, world0)))
     = [Alert ''Location Required'' [NoAction]]"
  by (simp add: submitReport_audio_def submitReport_video_old_def submitReport_video_def
        uploadVideo_def reportEnvNoFix_def reportEnv0_def audio0_def video0_def world0_def
        fallbackPosition_def orDefault_def truthy_def emit_def newEffects_def Let_def
        MIN_RECORDING_DURATION_def)

text \<open>The later video screen in general: a failed upload ends with the offer of the
  local save, the offline case makes the same offer, and the save stores the full
  entry.\<close>

lemma uploadVideo_trace:
  "\<exists>es. trace (snd (uploadVideo env loc dur extra save (s, w))) = trace w @ es
      \<and> ((\<exists>e. r_uploadResult env = Throws e) \<and> (\<exists>x \<in> set es. isUpload x)
           \<longrightarrow> es \<noteq> [] \<and> last es = Alert ''Upload Failed'' [NoAction, save])"
  by (auto simp: uploadVideo_def Let_def emit_def isUpload_def
      split: outcome.splits option.splits)

lemma submitReport_video_failed_upload:
  assumes "r_uploadResult env = Throws e"
    and "\<exists>x \<in> set (newEffects w (snd (submitReport_video env (s, w)))). isUpload x"
  shows "last (newEffects w (snd (submitReport_video env (s, w))))
           = Alert ''Upload Failed'' [NoAction, SaveLocally (fixOf env s) (savedDuration s)]"
proof -
  let ?dur = "savedDuration s"
  let ?s1 = "s\<lparr>showCaptionModal := False, v_loading := True, uploadProgress := 0\<rparr>"
  have up: "last (newEffects w (snd (uploadVideo env loc ?dur extra save (s', w))))
              = Alert ''Upload Failed'' [NoAction, save]"
    if "\<exists>x \<in> set (newEffects w (snd (uploadVideo env loc ?dur extra save (s', w)))). isUpload x"
    for loc extra save s'
  proof -
    obtain es where es: "trace (snd (uploadVideo env loc ?dur extra save (s', w))) = trace w @ es"
      and offer: "(\<exists>e. r_uploadResult env = Throws e) \<and> (\<exists>x \<in> set es. isUpload x)
           \<longrightarrow> es \<noteq> [] \<and> last es = Alert ''Upload Failed'' [NoAction, save]"
      using uploadVideo_trace by blast
    from es have "newEffects w (snd (uploadVideo env loc ?dur extra save (s', w))) = es"
      by (simp add: newEffects_def)
    with that offer assms(1) show ?thesis by auto
  qed
  show ?thesis
  proof (cases "v_location s")
    case (Some l)
    with assms(2) up [of l _ _ ?s1] show ?thesis
      by (auto simp: submitReport_video_def Let_def fixOf_def emit_def newEffects_def
            isUpload_def split: if_splits)
  next
    case None
    show ?thesis
    proof (cases "r_position env")
      case (Throws x)
      with None assms(2) show ?thesis
        by (auto simp: submitReport_video_def Let_def emit_def newEffects_def isUpload_def
            split: if_splits)
    next
      case (Returns l)
      with None assms(2) up [of l _ _ "?s1\<lparr>v_location := Some l\<rparr>"] show ?thesis
        by (auto simp: submitReport_video_def Let_def fixOf_def emit_def newEffects_def
              isUpload_def split: if_splits)
    qed
  qed
qed

lemma submitReport_video_offline:
  assumes "truthy (recordingUri s)" and "MIN_RECORDING_DURATION \<le> savedDuration s"
    and "fixOf env s = Some loc" and "\<not> isOnline s"
  shows "newEffects w (snd (submitReport_video env (s, w)))
           = [Alert ''Offline'' [NoAction, SaveLocally (Some loc) (savedDuration s)]]"
  using assms
  by (auto simp: submitReport_video_def Let_def fixOf_def emit_def newEffects_def
        MIN_RECORDING_DURATION_def
      split: option.splits outcome.splits)

lemma saveReportLocally_video_stored:
  assumes "pendingReports w = Returns reports" and "r_storageWrite env = Returns u"
  shows "getItem (snd (saveReportLocally_video loc duration env (s, w))) ''pending_video_reports''
           = Some (ReportsJson (reports @
               [\<lparr>pr_id = r_nowMs env, pr_uri = recordingUri s,
                 pr_caption = orDefault (v_caption s) ''Live security report'',
                 pr_is_anonymous = v_isAnonymous s,
                 pr_latitude = orZero (map_option pos_latitude loc),
                 pr_longitude = orZero (map_option pos_longitude loc),
                 pr_accuracy = Some (orZero (Option.bind loc pos_accuracy)),
                 pr_duration_seconds = duration, pr_created_at = r_nowIso env,
                 pr_upload_status = Some ''pending''\<rparr>]))"
  using assms
  by (simp add: saveReportLocally_video_def Let_def emit_def setItem_def getItem_def)

text \<open>
  C8 fails on the audio screen and on the earlier video screen. When the request of an
  audio report gets no answer, the handler shows the alert \<open>Error\<close>, which has no
  button that saves anything, and the report is kept nowhere. The earlier video screen
  does offer the local save, but the entry it stores has neither \<open>accuracy\<close> nor
  \<open>upload_status\<close>, and carries the built-in position when none is held. The later
  video screen, under the same conditions, offers the save with the position of the
  submission and stores the entry with every field and the status \<open>pending\<close>.
\<close>

theorem network_failure_without_local_save:
  "r_uploadResult reportEnvNetDown = Throws networkError
   \<and> newEffects world0 (snd (submitReport_audio reportEnvNetDown (audio0, world0)))
       = [Post ''/api/report/create''
            (AudioBody ''Audio security report'' False ''file:///report.m4a'' 6.5244 3.3792 12),
          Alert ''Error'' []]
   \<and> storage (snd (submitReport_audio reportEnvNetDown (audio0, world0))) = storage world0
   \<and> getItem (snd (saveReportLocally_video_old 12 reportEnvNetDown (video0, world0)))
         ''pending_video_reports''
       = Some (ReportsJson
           [\<lparr>pr_id = ''1704067200000'', pr_uri = Some ''file:///report.mp4'',
             pr_caption = ''Live security report'', pr_is_anonymous = False,
             pr_latitude = 9.0820, pr_longitude = 8.6753, pr_accuracy = None,
             pr_duration_seconds = 12, pr_created_at = ''2024-01-01T00:00:00.000Z'',
             pr_upload_status = None\<rparr>])
   \<and> newEffects world0 (snd (submitReport_video reportEnvNetDown (video0, world0)))
       = [Post ''/api/report/upload-video''
            (VideoBody ''AAAA'' ''Live security report'' False 6.5244 3.3792 12
               (Some (Some 5, ''2024-01-01T00:00:00.000Z''))),
          Alert ''Upload Failed'' [NoAction, SaveLocally (Some samplePosition) 12]]
   \<and> getItem (snd (saveReportLocally_video (Some samplePosition) 12 reportEnvNetDown
                      (video0, world0))) ''pending_video_reports''
       = Some (ReportsJson
           [\<lparr>pr_id = ''1704067200000'', pr_uri = Some ''file:///report.mp4'',
             pr_caption = ''Live security report'', pr_is_anonymous = False,
             pr_latitude = 6.5244, pr_longitude = 3.3792, pr_accuracy = Some 5,
             pr_duration_seconds = 12, pr_created_at = ''2024-01-01T00:00:00.000Z'',
             pr_upload_status = Some ''pending''\<rparr>])"
  by (simp add: submitReport_audio_def submitReport_video_def uploadVideo_def
        saveReportLocally_video_def saveReportLocally_video_old_def pendingReports_def
        reportEnvNetDown_def reportEnv0_def networkError_def is401_def audio0_def video0_def
        world0_def samplePosition_def orDefault_def orZero_def orNumber_def truthy_def
        emit_def setItem_def getItem_def newEffects_def Let_def MIN_RECORDING_DURATION_def)

end
